theory Spec2Isabelle
  imports Complex_Main "HOL-Library.AList"
begin

section \<open>JavaScript values used by the semantic tensor memory\<close>

text \<open>
  The store of \<^verbatim>\<open>src/agents/semantic-tensor-memory.js\<close> is a class whose fields are
  JavaScript \<^verbatim>\<open>Map\<close>s and \<^verbatim>\<open>Set\<close>s. Both iterate in insertion order, and several
  methods depend on that order (the first cluster above the threshold, the first five
  ids of a domain, the stable sort of the eviction). A \<^verbatim>\<open>Map\<close> is therefore an
  association list in insertion order: \<open>AList.update\<close> overwrites the value of a key
  that is present, in place, and appends a new key at the end, as \<^verbatim>\<open>Map.set\<close> does;
  \<open>AList.delete\<close> is \<^verbatim>\<open>Map.delete\<close>. A \<^verbatim>\<open>Set\<close> of ids is a list of ids in
  insertion order.
\<close>

type_synonym 'v jsmap = "(string \<times> 'v) list"
type_synonym jsset = "string list"

definition setAdd :: "string \<Rightarrow> jsset \<Rightarrow> jsset" where
  "setAdd x xs = (if x \<in> set xs then xs else xs @ [x])"

definition setDelete :: "string \<Rightarrow> jsset \<Rightarrow> jsset" where
  "setDelete x xs = removeAll x xs"

text \<open>
  The pattern \<^verbatim>\<open>if (!m.has(k)) m.set(k, new Set()); m.get(k).add(id)\<close>, which the
  source writes out for the temporal buckets, the categories, the domains and the
  embedding buckets.
\<close>

definition addToIndex :: "string \<Rightarrow> string \<Rightarrow> jsset jsmap \<Rightarrow> jsset jsmap" where
  "addToIndex key memId m =
     (case map_of m key of
        None \<Rightarrow> m @ [(key, [memId])]
      | Some ids \<Rightarrow> AList.update key (setAdd memId ids) m)"

text \<open>The pattern \<^verbatim>\<open>m.forEach(ids => ids.delete(id))\<close>.\<close>

definition deleteFromIndex :: "string \<Rightarrow> jsset jsmap \<Rightarrow> jsset jsmap" where
  "deleteFromIndex memId m = map (\<lambda>(key, ids). (key, setDelete memId ids)) m"

text \<open>\<^verbatim>\<open>arr.slice(0, n)\<close>: a negative end counts from the end of the array.\<close>

definition sliceFromStart :: "int \<Rightarrow> 'a list \<Rightarrow> 'a list" where
  "sliceFromStart n xs =
     (if n < 0 then take (nat (int (length xs) + n)) xs else take (nat n) xs)"

text \<open>\<^verbatim>\<open>a || b\<close> on an optional string: the empty string is falsy.\<close>

definition strOr :: "string option \<Rightarrow> string \<Rightarrow> string" where
  "strOr a b = (case a of None \<Rightarrow> b | Some s \<Rightarrow> if s = [] then b else s)"

definition truthyStr :: "string option \<Rightarrow> bool" where
  "truthyStr a = (case a of None \<Rightarrow> False | Some s \<Rightarrow> s \<noteq> [])"

text \<open>\<^verbatim>\<open>a || 0\<close> on an optional number.\<close>

definition numOr0 :: "real option \<Rightarrow> real" where
  "numOr0 a = (case a of None \<Rightarrow> 0 | Some x \<Rightarrow> x)"

subsection \<open>Numbers\<close>

text \<open>
  A JavaScript number is modelled as a real number or \<^verbatim>\<open>NaN\<close>: rounding, overflow to
  \<^verbatim>\<open>Infinity\<close> and underflow of IEEE doubles are idealised away. \<^verbatim>\<open>NaN\<close> is kept because
  the code produces it from finite inputs (\<^verbatim>\<open>0 / 0\<close>, \<^verbatim>\<open>undefined + x\<close>). A nonzero
  dividend over zero is an infinity in JavaScript, which this type cannot hold; no
  division of the modelled code reaches that case: the cosine guards a zero
  denominator, the centroid divides by a positive count, and the average of the search
  metrics has a zero sum whenever its count is zero.
\<close>

datatype jsnum = Num real | NaN

fun jadd :: "jsnum \<Rightarrow> jsnum \<Rightarrow> jsnum" where
  "jadd (Num x) (Num y) = Num (x + y)"
| "jadd _ _ = NaN"

fun jmul :: "jsnum \<Rightarrow> jsnum \<Rightarrow> jsnum" where
  "jmul (Num x) (Num y) = Num (x * y)"
| "jmul _ _ = NaN"

text \<open>\<^verbatim>\<open>Math.sqrt\<close> on the idealised numbers.\<close>

definition mathSqrt :: "real \<Rightarrow> real" where
  "mathSqrt x = sqrt x"

fun jsqrt :: "jsnum \<Rightarrow> jsnum" where
  "jsqrt (Num x) = (if x < 0 then NaN else Num (mathSqrt x))"
| "jsqrt NaN = NaN"

fun jdiv :: "jsnum \<Rightarrow> jsnum \<Rightarrow> jsnum" where
  "jdiv (Num x) (Num y) = (if y = 0 then NaN else Num (x / y))"
| "jdiv _ _ = NaN"

text \<open>\<^verbatim>\<open>a > b\<close> and \<^verbatim>\<open>a >= b\<close>: every comparison with \<^verbatim>\<open>NaN\<close> is false.\<close>

fun jgt :: "jsnum \<Rightarrow> real \<Rightarrow> bool" where
  "jgt (Num x) t = (x > t)"
| "jgt NaN t = False"

fun jge :: "jsnum \<Rightarrow> real \<Rightarrow> bool" where
  "jge (Num x) t = (x \<ge> t)"
| "jge NaN t = False"

fun numval :: "jsnum \<Rightarrow> real" where
  "numval (Num x) = x"
| "numval NaN = 0"

subsection \<open>Template strings\<close>

fun showNat :: "nat \<Rightarrow> string" where
  "showNat n =
     (if n < 10 then [char_of (48 + n)]
      else showNat (n div 10) @ [char_of (48 + n mod 10)])"

definition showInt :: "int \<Rightarrow> string" where
  "showInt i = (if i < 0 then CHR ''-'' # showNat (nat (- i)) else showNat (nat i))"

fun joinWith :: "string \<Rightarrow> string list \<Rightarrow> string" where
  "joinWith sep [] = []"
| "joinWith sep [x] = x"
| "joinWith sep (x # y # ys) = x @ sep @ joinWith sep (y # ys)"

subsection \<open>Dates\<close>

text \<open>
  The timestamp of a raw result is a JavaScript value that the memory never checks. It
  is a number of milliseconds since the epoch where the result carries \<^verbatim>\<open>Date.now()\<close>,
  as the results of the orchestrator do, and it is an ISO-8601 string where the caller
  writes \<^verbatim>\<open>new Date().toISOString()\<close>, as the renderer does before it calls
  \<^verbatim>\<open>storeMemory\<close>. \<open>IsoString t\<close> stands for the string that \<^verbatim>\<open>toISOString\<close> prints for
  the instant \<open>t\<close>. \<^verbatim>\<open>new Date(x)\<close> reads both kinds and gives the instant.
\<close>

datatype jstime = Millis int | IsoString int

fun newDate :: "jstime \<Rightarrow> int" where
  "newDate (Millis t) = t"
| "newDate (IsoString t) = t"



text \<open>
  \<^verbatim>\<open>a - b\<close> on two timestamps: the operands are converted to numbers, and an ISO-8601
  string converts to \<^verbatim>\<open>NaN\<close>.
\<close>

fun timeDifference :: "jstime \<Rightarrow> jstime \<Rightarrow> jsnum" where
  "timeDifference (Millis x) (Millis y) = Num (real_of_int (x - y))"
| "timeDifference _ _ = NaN"

text \<open>
  \<^verbatim>\<open>a >= b\<close> and \<^verbatim>\<open>a <= b\<close> on two timestamps. Two numbers are compared as numbers.
  Two strings are compared as strings, which for the strings of \<^verbatim>\<open>toISOString\<close> with a
  year of four digits is the order of the instants. A string and a number are compared
  as numbers, the string is \<^verbatim>\<open>NaN\<close>, and the comparison is false.
\<close>

fun timeGe :: "jstime \<Rightarrow> jstime \<Rightarrow> bool" where
  "timeGe (Millis x) (Millis y) = (x \<ge> y)"
| "timeGe (IsoString x) (IsoString y) = (x \<ge> y)"
| "timeGe _ _ = False"

fun timeLe :: "jstime \<Rightarrow> jstime \<Rightarrow> bool" where
  "timeLe (Millis x) (Millis y) = (x \<le> y)"
| "timeLe (IsoString x) (IsoString y) = (x \<le> y)"
| "timeLe _ _ = False"

text \<open>
  The getters of \<^verbatim>\<open>Date\<close> read an instant in the local time zone of the process; the
  model fixes that zone to UTC, and takes every timestamp to be a valid date. The civil
  date is computed from the day number by the usual era arithmetic of the proleptic
  Gregorian calendar.
\<close>

definition msPerDay :: int where
  "msPerDay = 86400000"

definition civilFromDays :: "int \<Rightarrow> int \<times> int \<times> int" where
  "civilFromDays days =
     (let z = days + 719468;
          era = z div 146097;
          doe = z - era * 146097;
          yoe = (doe - doe div 1460 + doe div 36524 - doe div 146096) div 365;
          doy = doe - (365 * yoe + yoe div 4 - yoe div 100);
          mp = (5 * doy + 2) div 153;
          d = doy - (153 * mp + 2) div 5 + 1;
          m = (if mp < 10 then mp + 3 else mp - 9);
          y = yoe + era * 400 + (if m \<le> 2 then 1 else 0)
      in (y, m, d))"

definition getFullYear :: "int \<Rightarrow> int" where
  "getFullYear ts = (case civilFromDays (ts div msPerDay) of (y, m, d) \<Rightarrow> y)"

definition getMonth :: "int \<Rightarrow> int" where
  "getMonth ts = (case civilFromDays (ts div msPerDay) of (y, m, d) \<Rightarrow> m - 1)"

definition getDate :: "int \<Rightarrow> int" where
  "getDate ts = (case civilFromDays (ts div msPerDay) of (y, m, d) \<Rightarrow> d)"

definition getHours :: "int \<Rightarrow> int" where
  "getHours ts = (ts mod msPerDay) div 3600000"

definition getDay :: "int \<Rightarrow> int" where
  "getDay ts = (ts div msPerDay + 4) mod 7"

text \<open>\<^verbatim>\<open>new Date(year, 0, 1)\<close>: midnight of the first of January, as a timestamp.\<close>

definition firstDayOfYear :: "int \<Rightarrow> int" where
  "firstDayOfYear year =
     (let y = year - 1;
          era = y div 400;
          yoe = y - era * 400;
          doe = yoe * 365 + yoe div 4 - yoe div 100 + 306
      in (era * 146097 + doe - 719468) * msPerDay)"

definition getWeekNumber :: "int \<Rightarrow> int" where
  "getWeekNumber ts =
     (let first = firstDayOfYear (getFullYear ts);
          pastDaysOfYear = real_of_int (ts - first) / 86400000
      in \<lceil>(pastDaysOfYear + real_of_int (getDay first) + 1) / 7\<rceil>)"

definition getSeason :: "int \<Rightarrow> string" where
  "getSeason ts =
     (let month = getMonth ts
      in if month \<ge> 2 \<and> month \<le> 4 then ''spring''
         else if month \<ge> 5 \<and> month \<le> 7 then ''summer''
         else if month \<ge> 8 \<and> month \<le> 10 then ''fall''
         else ''winter'')"

definition hourKey :: "int \<Rightarrow> string" where
  "hourKey ts = showInt (getFullYear ts) @ ''-'' @ showInt (getMonth ts) @ ''-''
                @ showInt (getDate ts) @ ''-'' @ showInt (getHours ts)"

definition dayKey :: "int \<Rightarrow> string" where
  "dayKey ts = showInt (getFullYear ts) @ ''-'' @ showInt (getMonth ts) @ ''-''
               @ showInt (getDate ts)"

definition weekKey :: "int \<Rightarrow> string" where
  "weekKey ts = showInt (getFullYear ts) @ ''-'' @ showInt (getWeekNumber ts)"

definition monthKey :: "int \<Rightarrow> string" where
  "monthKey ts = showInt (getFullYear ts) @ ''-'' @ showInt (getMonth ts)"

section \<open>The raw analysis result\<close>

text \<open>
  \<^verbatim>\<open>storeMemory\<close> receives the orchestration result, an object probed through optional
  chaining. Every part that the code reads with \<^verbatim>\<open>?.\<close> or tests for truthiness is an
  option; \<open>None\<close> stands for \<^verbatim>\<open>undefined\<close> or \<^verbatim>\<open>null\<close>. The reasoning objects, the
  agreement score and the decision rationale are copied without being read and are
  left out.
\<close>

record text_metadata =
  tm_contentType :: "string option"
  tm_pageType :: "string option"

record text_analysis =
  ta_summary :: "string option"
  ta_metadata :: "text_metadata option"
  ta_embeddings :: "jsnum list option"

record text_result =
  tr_textAnalysis :: "text_analysis option"
  tr_confidence :: "real option"
  tr_agentId :: "string option"

record visual_features =
  vf_designStyle :: "string option"
  vf_userExperience :: "string option"

record vision_analysis =
  va_synthesis :: "string option"
  va_visualFeatures :: "visual_features option"
  va_embeddings :: "jsnum list option"

record vision_result =
  vr_visionAnalysis :: "vision_analysis option"
  vr_confidence :: "real option"
  vr_agentId :: "string option"

record agent_results =
  ar_text :: "text_result option"
  ar_vision :: "vision_result option"

record orchestrator_synthesis =
  os_unifiedAnalysis :: "string option"
  os_embeddings :: "jsnum list option"
  os_confidence :: "real option"

record quality_metrics =
  qm_overallScore :: "real option"

record orchestration_metadata =
  om_processingTime :: "real option"
  om_synthesisApproach :: "string option"

record orchestration_result =
  or_timestamp :: jstime
  or_url :: string
  or_agentId :: "string option"
  or_agentResults :: "agent_results option"
  or_orchestratorSynthesis :: "orchestrator_synthesis option"
  or_qualityMetrics :: "quality_metrics option"
  or_orchestrationMetadata :: "orchestration_metadata option"

section \<open>Memory entries and the store\<close>

record agent_outputs =
  ao_textSummary :: string
  ao_textConfidence :: real
  ao_visionSynthesis :: string
  ao_visionConfidence :: real
  ao_unifiedAnalysis :: string
  ao_orchestratorConfidence :: real

record embeddings_tensor =
  unified :: "jsnum list option"
  textEmb :: "jsnum list option"
  vision :: "jsnum list option"
  dimension :: nat

record semantic_features =
  contentType :: string
  pageType :: string
  topics :: "string list"
  categories :: "string list"
  quality :: "real option"
  confidence :: "real option"

record temporal_features =
  tf_hour :: int
  tf_dayOfWeek :: int
  tf_month :: int
  tf_season :: string

record provenance_info =
  pv_textAgent :: "string option"
  pv_visionAgent :: "string option"
  pv_orchestratorAgent :: "string option"
  pv_processingTime :: "real option"
  pv_synthesisApproach :: "string option"

record memory_entry =
  memoryId :: string
  timestamp :: jstime
  url :: string
  domain :: string
  agentOutputs :: agent_outputs
  embeddingsTensor :: embeddings_tensor
  semanticFeatures :: semantic_features
  temporalFeatures :: temporal_features
  provenance :: provenance_info

record relationship =
  rel_type :: string
  targetId :: string
  strength :: real

record concept_cluster =
  cluster_id :: string
  centroid :: "jsnum list"
  members :: jsset
  concept :: string
  lastUpdated :: int

text \<open>
  The fields of the class. \<^verbatim>\<open>temporalIndex\<close>, \<^verbatim>\<open>conversationHistory\<close> and \<^verbatim>\<open>systemId\<close>
  are never read by the methods modelled here. \<^verbatim>\<open>embeddingBuckets\<close> is created on first
  use; before that it is the empty map.
\<close>

record tensor_memory =
  maxMemories :: int
  memoryStore :: "memory_entry jsmap"
  embeddingIndex :: "embeddings_tensor jsmap"
  conceptClusters :: "concept_cluster jsmap"
  relationshipGraph :: "relationship list jsmap"
  hourBuckets :: "jsset jsmap"
  dayBuckets :: "jsset jsmap"
  weekBuckets :: "jsset jsmap"
  monthBuckets :: "jsset jsmap"
  semanticCategories :: "jsset jsmap"
  domainClusters :: "jsset jsmap"
  embeddingBuckets :: "jsset jsmap"

definition newMemory :: "int \<Rightarrow> tensor_memory" where
  "newMemory maxMem =
     \<lparr>maxMemories = maxMem, memoryStore = [], embeddingIndex = [], conceptClusters = [],
      relationshipGraph = [], hourBuckets = [], dayBuckets = [], weekBuckets = [],
      monthBuckets = [], semanticCategories = [], domainClusters = [],
      embeddingBuckets = []\<rparr>"

section \<open>Utility methods\<close>

subsection \<open>calculateCosineSimilarity\<close>

fun cosineLoop ::
  "jsnum list \<Rightarrow> jsnum list \<Rightarrow> jsnum \<times> jsnum \<times> jsnum \<Rightarrow> jsnum \<times> jsnum \<times> jsnum" where
  "cosineLoop (a # as) (b # bs) (dotProduct, normA, normB) =
     cosineLoop as bs
       (jadd dotProduct (jmul a b), jadd normA (jmul a a), jadd normB (jmul b b))"
| "cosineLoop _ _ acc = acc"

definition calculateCosineSimilarity :: "jsnum list option \<Rightarrow> jsnum list option \<Rightarrow> jsnum" where
  "calculateCosineSimilarity vecA vecB =
     (case (vecA, vecB) of
        (Some a, Some b) \<Rightarrow>
          if length a \<noteq> length b then Num 0
          else (case cosineLoop a b (Num 0, Num 0, Num 0) of
                  (dotProduct, normA, normB) \<Rightarrow>
                    let denominator = jmul (jsqrt normA) (jsqrt normB)
                    in if denominator = Num 0 then Num 0 else jdiv dotProduct denominator)
      | _ \<Rightarrow> Num 0)"



text \<open>The arithmetic mean of vectors of equal length, component by component.\<close>

definition spec_mean :: "real list list \<Rightarrow> real list" where
  "spec_mean vs =
     map (\<lambda>j. sum_list (map (\<lambda>v. v ! j) vs) / real (length vs)) [0..<length (hd vs)]"

subsection \<open>Feature extraction\<close>

text \<open>
  \<^verbatim>\<open>new URL(url).hostname\<close> is the URL parser of the platform; it is a parameter
  \<open>hostname\<close> of the model, \<open>None\<close> when the parser throws.
\<close>

definition extractDomain :: "(string \<Rightarrow> string option) \<Rightarrow> string \<Rightarrow> string" where
  "extractDomain hostname u = (case hostname u of Some h \<Rightarrow> h | None \<Rightarrow> ''unknown'')"

definition textMetadataOf :: "agent_results \<Rightarrow> text_metadata option" where
  "textMetadataOf ar =
     Option.bind (Option.bind (ar_text ar) tr_textAnalysis) ta_metadata"

definition visualFeaturesOf :: "agent_results \<Rightarrow> visual_features option" where
  "visualFeaturesOf ar =
     Option.bind (Option.bind (ar_vision ar) vr_visionAnalysis) va_visualFeatures"

definition textSummaryOf :: "agent_results \<Rightarrow> string option" where
  "textSummaryOf ar = Option.bind (Option.bind (ar_text ar) tr_textAnalysis) ta_summary"

definition visionSynthesisOf :: "agent_results \<Rightarrow> string option" where
  "visionSynthesisOf ar =
     Option.bind (Option.bind (ar_vision ar) vr_visionAnalysis) va_synthesis"

definition extractContentType :: "agent_results \<Rightarrow> string" where
  "extractContentType ar = strOr (Option.bind (textMetadataOf ar) tm_contentType) ''general''"

definition extractPageType :: "agent_results \<Rightarrow> string" where
  "extractPageType ar = strOr (Option.bind (textMetadataOf ar) tm_pageType) ''page''"

text \<open>
  Strings are lists of ASCII characters: \<^verbatim>\<open>toLowerCase\<close> maps the letters A to Z, and
  \<^verbatim>\<open>\s\<close> matches the space, the tab, the line feed, the vertical tab, the form feed and
  the carriage return. \<^verbatim>\<open>split(/\s+/)\<close> cuts at every maximal run of such characters and
  yields an empty token before a leading run and after a trailing one.
\<close>

definition toLowerChar :: "char \<Rightarrow> char" where
  "toLowerChar c =
     (let n = (of_char c :: nat) in if 65 \<le> n \<and> n \<le> 90 then char_of (n + 32) else c)"

definition toLowerCase :: "string \<Rightarrow> string" where
  "toLowerCase s = map toLowerChar s"

definition isSpace :: "char \<Rightarrow> bool" where
  "isSpace c = ((of_char c :: nat) \<in> {9, 10, 11, 12, 13, 32})"

function splitWhitespace :: "string \<Rightarrow> string \<Rightarrow> string list" where
  "splitWhitespace cur [] = [cur]"
| "splitWhitespace cur (c # cs) =
     (if isSpace c then cur # splitWhitespace [] (dropWhile isSpace cs)
      else splitWhitespace (cur @ [c]) cs)"
  by pat_completeness auto
termination
  by (relation "measure (\<lambda>(cur, s). length s)")
     (auto simp: le_imp_less_Suc length_dropWhile_le)

definition commonWords :: "string list" where
  "commonWords = [''the'', ''and'', ''or'', ''but'', ''in'', ''on'', ''at'', ''to'', ''for'',
                  ''of'', ''with'', ''by'']"

definition extractTopicsFromText :: "string \<Rightarrow> string list" where
  "extractTopicsFromText txt =
     take 5 (filter (\<lambda>word. length word > 3 \<and> word \<notin> set commonWords)
               (splitWhitespace [] (toLowerCase txt)))"

text \<open>\<^verbatim>\<open>[...new Set(xs)]\<close>: the first occurrence of every element, in order.\<close>

definition uniqueInOrder :: "string list \<Rightarrow> string list" where
  "uniqueInOrder xs = foldl (\<lambda>acc x. setAdd x acc) [] xs"

definition extractTopics :: "agent_results \<Rightarrow> string list" where
  "extractTopics ar =
     (let textSummary = strOr (textSummaryOf ar) [];
          visionSynthesis = strOr (visionSynthesisOf ar) [];
          topics = extractTopicsFromText textSummary @ extractTopicsFromText visionSynthesis
      in take 10 (uniqueInOrder topics))"

definition pushIfTruthy :: "string option \<Rightarrow> string list \<Rightarrow> string list" where
  "pushIfTruthy a xs = (if truthyStr a then xs @ [the a] else xs)"

definition extractCategories :: "agent_results \<Rightarrow> string list" where
  "extractCategories ar =
     (let textMetadata = textMetadataOf ar;
          visualFeatures = visualFeaturesOf ar;
          c1 = pushIfTruthy (Option.bind textMetadata tm_contentType) [];
          c2 = pushIfTruthy (Option.bind textMetadata tm_pageType) c1;
          c3 = pushIfTruthy (Option.bind visualFeatures vf_designStyle) c2;
          c4 = pushIfTruthy (Option.bind visualFeatures vf_userExperience) c3
      in uniqueInOrder c4)"

definition inferConceptFromFeatures :: "semantic_features \<Rightarrow> string" where
  "inferConceptFromFeatures sf = contentType sf @ '': '' @ joinWith '', '' (take 3 (topics sf))"

section \<open>Building a memory entry\<close>

text \<open>
  \<^verbatim>\<open>createMemoryEntry\<close> reads \<^verbatim>\<open>agentResults\<close>, \<^verbatim>\<open>qualityMetrics\<close>,
  \<^verbatim>\<open>orchestratorSynthesis\<close> and \<^verbatim>\<open>orchestrationMetadata\<close> without optional chaining;
  when one of them is undefined the property access throws a \<^verbatim>\<open>TypeError\<close>, which
  \<^verbatim>\<open>storeMemory\<close> catches.
\<close>

datatype js_error = TypeError

text \<open>\<^verbatim>\<open>x?.substring(0, 200)\<close> followed by \<^verbatim>\<open>x ? `${x}...` : ''\<close>.\<close>

definition withEllipsis :: "string option \<Rightarrow> string" where
  "withEllipsis a =
     (case a of
        None \<Rightarrow> []
      | Some t \<Rightarrow> (let cut = take 200 t in if cut = [] then [] else cut @ ''...''))"

text \<open>\<^verbatim>\<open>a || null\<close> on an optional string.\<close>

definition strOrNull :: "string option \<Rightarrow> string option" where
  "strOrNull a = (if truthyStr a then a else None)"

definition createMemoryEntry ::
  "(string \<Rightarrow> string option) \<Rightarrow> string \<Rightarrow> orchestration_result \<Rightarrow> js_error + memory_entry" where
  "createMemoryEntry hostname memId r =
     (case (or_agentResults r, or_orchestratorSynthesis r, or_qualityMetrics r,
            or_orchestrationMetadata r) of
        (Some ar, Some os, Some qm, Some om) \<Rightarrow>
          Inr \<lparr>memoryId = memId,
               timestamp = or_timestamp r,
               url = or_url r,
               domain = extractDomain hostname (or_url r),
               agentOutputs =
                 \<lparr>ao_textSummary = withEllipsis (textSummaryOf ar),
                  ao_textConfidence = numOr0 (Option.bind (ar_text ar) tr_confidence),
                  ao_visionSynthesis = withEllipsis (visionSynthesisOf ar),
                  ao_visionConfidence = numOr0 (Option.bind (ar_vision ar) vr_confidence),
                  ao_unifiedAnalysis = withEllipsis (os_unifiedAnalysis os),
                  ao_orchestratorConfidence = numOr0 (os_confidence os)\<rparr>,
               embeddingsTensor =
                 \<lparr>unified = None, textEmb = None, vision = None, dimension = 0\<rparr>,
               semanticFeatures =
                 \<lparr>contentType = extractContentType ar,
                  pageType = extractPageType ar,
                  topics = extractTopics ar,
                  categories = extractCategories ar,
                  quality = qm_overallScore qm,
                  confidence = os_confidence os\<rparr>,
               temporalFeatures =
                 \<lparr>tf_hour = getHours (newDate (or_timestamp r)),
                  tf_dayOfWeek = getDay (newDate (or_timestamp r)),
                  tf_month = getMonth (newDate (or_timestamp r)),
                  tf_season = getSeason (newDate (or_timestamp r))\<rparr>,
               provenance =
                 \<lparr>pv_textAgent = strOrNull (Option.bind (ar_text ar) tr_agentId),
                  pv_visionAgent = strOrNull (Option.bind (ar_vision ar) vr_agentId),
                  pv_orchestratorAgent = or_agentId r,
                  pv_processingTime = om_processingTime om,
                  pv_synthesisApproach = om_synthesisApproach om\<rparr>\<rparr>
      | _ \<Rightarrow> Inl TypeError)"

section \<open>Indexing\<close>

text \<open>\<^verbatim>\<open>a % b\<close> for a positive \<open>b\<close>: the remainder has the sign of the dividend.\<close>

definition jsRem :: "int \<Rightarrow> int \<Rightarrow> int" where
  "jsRem a b = (if a < 0 then - ((- a) mod b) else a mod b)"

definition calculateEmbeddingBucket :: "jsnum list option \<Rightarrow> string" where
  "calculateEmbeddingBucket embedding =
     (case embedding of
        None \<Rightarrow> ''default''
      | Some e \<Rightarrow>
          (case foldl jadd (Num 0) e of
             NaN \<Rightarrow> ''NaN''
           | Num x \<Rightarrow> showInt (jsRem \<lfloor>x * 100\<rfloor> 100)))"

definition indexEmbeddings :: "tensor_memory \<Rightarrow> string \<Rightarrow> memory_entry \<Rightarrow> tensor_memory" where
  "indexEmbeddings s memId memoryEntry =
     (let embeddings = embeddingsTensor memoryEntry;
          s1 = (case unified embeddings of
                  Some u \<Rightarrow>
                    s\<lparr>embeddingIndex :=
                        AList.update memId
                          \<lparr>unified = unified embeddings, textEmb = textEmb embeddings,
                           vision = vision embeddings, dimension = dimension embeddings\<rparr>
                          (embeddingIndex s)\<rparr>
                | None \<Rightarrow> s);
          bucketKey = calculateEmbeddingBucket (unified embeddings)
      in s1\<lparr>embeddingBuckets := addToIndex bucketKey memId (embeddingBuckets s1)\<rparr>)"

datatype bucket_type = Hour | Day | Week | Month

fun addToTemporalBucket ::
  "bucket_type \<Rightarrow> string \<Rightarrow> string \<Rightarrow> tensor_memory \<Rightarrow> tensor_memory" where
  "addToTemporalBucket Hour key memId s = s\<lparr>hourBuckets := addToIndex key memId (hourBuckets s)\<rparr>"
| "addToTemporalBucket Day key memId s = s\<lparr>dayBuckets := addToIndex key memId (dayBuckets s)\<rparr>"
| "addToTemporalBucket Week key memId s = s\<lparr>weekBuckets := addToIndex key memId (weekBuckets s)\<rparr>"
| "addToTemporalBucket Month key memId s = s\<lparr>monthBuckets := addToIndex key memId (monthBuckets s)\<rparr>"

definition updateTemporalIndices :: "tensor_memory \<Rightarrow> string \<Rightarrow> memory_entry \<Rightarrow> tensor_memory" where
  "updateTemporalIndices s memId memoryEntry =
     (let ts = newDate (timestamp memoryEntry);
          s1 = addToTemporalBucket Hour (hourKey ts) memId s;
          s2 = addToTemporalBucket Day (dayKey ts) memId s1;
          s3 = addToTemporalBucket Week (weekKey ts) memId s2
      in addToTemporalBucket Month (monthKey ts) memId s3)"

definition updateSemanticCategories :: "tensor_memory \<Rightarrow> string \<Rightarrow> memory_entry \<Rightarrow> tensor_memory" where
  "updateSemanticCategories s memId memoryEntry =
     s\<lparr>semanticCategories :=
         foldl (\<lambda>m category. addToIndex category memId m) (semanticCategories s)
           (categories (semanticFeatures memoryEntry))\<rparr>"

definition updateDomainClusters :: "tensor_memory \<Rightarrow> string \<Rightarrow> memory_entry \<Rightarrow> tensor_memory" where
  "updateDomainClusters s memId memoryEntry =
     s\<lparr>domainClusters := addToIndex (domain memoryEntry) memId (domainClusters s)\<rparr>"

section \<open>Relationship discovery\<close>

text \<open>\<^verbatim>\<open>this.relationshipGraph.get(id) || []\<close>.\<close>

definition edgesOf :: "relationship list jsmap \<Rightarrow> string \<Rightarrow> relationship list" where
  "edgesOf graph memId = (case map_of graph memId of None \<Rightarrow> [] | Some rels \<Rightarrow> rels)"

definition idsOf :: "jsset jsmap \<Rightarrow> string \<Rightarrow> jsset" where
  "idsOf m key = (case map_of m key of None \<Rightarrow> [] | Some ids \<Rightarrow> ids)"

definition findDomainRelatedMemories :: "tensor_memory \<Rightarrow> string \<Rightarrow> string \<Rightarrow> string list" where
  "findDomainRelatedMemories s domainName excludeId =
     take 5 (filter (\<lambda>i. i \<noteq> excludeId) (idsOf (domainClusters s) domainName))"

definition findTemporallyRelatedMemories ::
  "tensor_memory \<Rightarrow> jstime \<Rightarrow> string \<Rightarrow> string list" where
  "findTemporallyRelatedMemories s ts excludeId =
     take 3 (filter (\<lambda>i. i \<noteq> excludeId) (idsOf (dayBuckets s) (dayKey (newDate ts))))"

text \<open>
  The loop shared by \<^verbatim>\<open>findSemanticallySimilarMemories\<close> (unified embeddings, above
  0.7) and \<^verbatim>\<open>findVisuallySimilarMemories\<close> (vision embeddings, above 0.8): one edge for
  every other indexed record whose similarity to the target is above the bound. A
  similarity that passed the comparison is a number, and is kept as such.
\<close>

definition similarityEdges ::
  "string \<Rightarrow> real \<Rightarrow> (embeddings_tensor \<Rightarrow> jsnum list option) \<Rightarrow> jsnum list \<Rightarrow> string \<Rightarrow>
   embeddings_tensor jsmap \<Rightarrow> relationship list" where
  "similarityEdges kind bound sel target excludeId index =
     concat (map (\<lambda>(memId, embeddings).
        if memId = excludeId then []
        else (case sel embeddings of
                None \<Rightarrow> []
              | Some other \<Rightarrow>
                  (let similarity = calculateCosineSimilarity (Some target) (Some other)
                   in if jgt similarity bound
                      then [\<lparr>rel_type = kind, targetId = memId, strength = numval similarity\<rparr>]
                      else []))) index)"

definition findSemanticallySimilarMemories ::
  "tensor_memory \<Rightarrow> memory_entry \<Rightarrow> string \<Rightarrow> relationship list" where
  "findSemanticallySimilarMemories s memoryEntry excludeId =
     (case unified (embeddingsTensor memoryEntry) of
        None \<Rightarrow> []
      | Some targetEmbedding \<Rightarrow>
          take 5 (sort_key (\<lambda>r. - strength r)
            (similarityEdges ''semantic-similar'' 0.7 unified targetEmbedding excludeId
               (embeddingIndex s))))"

definition findVisuallySimilarMemories ::
  "tensor_memory \<Rightarrow> memory_entry \<Rightarrow> string \<Rightarrow> relationship list" where
  "findVisuallySimilarMemories s memoryEntry excludeId =
     (case vision (embeddingsTensor memoryEntry) of
        None \<Rightarrow> []
      | Some targetVisionEmbedding \<Rightarrow>
          take 3 (sort_key (\<lambda>r. - strength r)
            (similarityEdges ''visual-similar'' 0.8 vision targetVisionEmbedding excludeId
               (embeddingIndex s))))"

text \<open>The relationships of a new record, in the order in which they are pushed.\<close>

definition discoveredRelationships ::
  "tensor_memory \<Rightarrow> string \<Rightarrow> memory_entry \<Rightarrow> relationship list" where
  "discoveredRelationships s memId memoryEntry =
     map (\<lambda>i. \<lparr>rel_type = ''domain-related'', targetId = i, strength = 0.7\<rparr>)
       (findDomainRelatedMemories s (domain memoryEntry) memId)
     @ findSemanticallySimilarMemories s memoryEntry memId
     @ map (\<lambda>i. \<lparr>rel_type = ''temporal-related'', targetId = i, strength = 0.5\<rparr>)
         (findTemporallyRelatedMemories s (timestamp memoryEntry) memId)
     @ (if vision (embeddingsTensor memoryEntry) \<noteq> None
        then findVisuallySimilarMemories s memoryEntry memId else [])"

text \<open>One step of the \<^verbatim>\<open>forEach\<close> that inserts the reverse relationships.\<close>

definition pushReverse ::
  "string \<Rightarrow> relationship list jsmap \<Rightarrow> relationship \<Rightarrow> relationship list jsmap" where
  "pushReverse memId graph rel =
     (let reverse = \<lparr>rel_type = rel_type rel @ ''-reverse'', targetId = memId,
                     strength = strength rel\<rparr>
      in case map_of graph (targetId rel) of
           None \<Rightarrow> graph @ [(targetId rel, [reverse])]
         | Some rels \<Rightarrow> AList.update (targetId rel) (rels @ [reverse]) graph)"

definition discoverRelationships :: "tensor_memory \<Rightarrow> string \<Rightarrow> memory_entry \<Rightarrow> tensor_memory" where
  "discoverRelationships s memId memoryEntry =
     (let relationships = discoveredRelationships s memId memoryEntry;
          graph = AList.update memId relationships (relationshipGraph s)
      in s\<lparr>relationshipGraph := foldl (pushReverse memId) graph relationships\<rparr>)"

section \<open>Concept clusters\<close>

text \<open>
  The identifier of a new cluster is built from the clock and a random number; it is the
  parameter \<open>newClusterId\<close>, and \<open>now\<close> is the reading of the clock.
\<close>

fun findOrCreateConceptCluster ::
  "concept_cluster jsmap \<Rightarrow> jsnum list \<Rightarrow> string \<Rightarrow> string" where
  "findOrCreateConceptCluster [] embedding newClusterId = newClusterId"
| "findOrCreateConceptCluster ((clusterId, cluster) # rest) embedding newClusterId =
     (if jgt (calculateCosineSimilarity (Some embedding) (Some (centroid cluster))) 0.85
      then clusterId
      else findOrCreateConceptCluster rest embedding newClusterId)"

text \<open>
  \<^verbatim>\<open>embedding.forEach((value, index) => centroid[index] += value)\<close>: past the end of the
  centroid the sum is \<^verbatim>\<open>undefined + value\<close>, which is \<^verbatim>\<open>NaN\<close>, and the array grows.
\<close>

fun accumulate :: "jsnum list \<Rightarrow> jsnum list \<Rightarrow> jsnum list" where
  "accumulate (c # cs) (v # vs) = jadd c v # accumulate cs vs"
| "accumulate [] (v # vs) = NaN # accumulate [] vs"
| "accumulate cs [] = cs"

definition memberEmbeddings :: "tensor_memory \<Rightarrow> jsset \<Rightarrow> jsnum list list" where
  "memberEmbeddings s ids =
     concat (map (\<lambda>memId.
        case map_of (embeddingIndex s) memId of
          None \<Rightarrow> []
        | Some t \<Rightarrow> (case unified t of None \<Rightarrow> [] | Some u \<Rightarrow> [u])) ids)"

text \<open>
  The block of \<^verbatim>\<open>updateClusterCentroid\<close> that computes the average: the sums are
  collected in an array as long as the first embedding, and every sum is divided by the
  number of embeddings. It runs on a list that is not empty.
\<close>

definition averageEmbeddings :: "jsnum list list \<Rightarrow> jsnum list" where
  "averageEmbeddings embeddings =
     (case embeddings of
        [] \<Rightarrow> []
      | first # others \<Rightarrow>
          map (\<lambda>v. jdiv v (Num (real (length embeddings))))
            (foldl accumulate (replicate (length first) (Num 0)) embeddings))"

definition updateClusterCentroid :: "tensor_memory \<Rightarrow> string \<Rightarrow> int \<Rightarrow> tensor_memory" where
  "updateClusterCentroid s clusterId now =
     (case map_of (conceptClusters s) clusterId of
        None \<Rightarrow> s
      | Some cluster \<Rightarrow>
          if members cluster = [] then s
          else (let embeddings = memberEmbeddings s (members cluster)
                in if embeddings = [] then s
                   else s\<lparr>conceptClusters :=
                           AList.map_entry clusterId
                             (\<lambda>c. c\<lparr>centroid := averageEmbeddings embeddings,
                                    lastUpdated := now\<rparr>)
                             (conceptClusters s)\<rparr>))"

definition updateConceptClusters ::
  "tensor_memory \<Rightarrow> string \<Rightarrow> memory_entry \<Rightarrow> string \<Rightarrow> int \<Rightarrow> tensor_memory" where
  "updateConceptClusters s memId memoryEntry newClusterId now =
     (case unified (embeddingsTensor memoryEntry) of
        None \<Rightarrow> s
      | Some embedding \<Rightarrow>
          (let clusterId = findOrCreateConceptCluster (conceptClusters s) embedding newClusterId;
               clusters1 =
                 (if map_of (conceptClusters s) clusterId = None
                  then conceptClusters s @
                        [(clusterId,
                          \<lparr>cluster_id = clusterId, centroid = embedding, members = [],
                           concept = inferConceptFromFeatures (semanticFeatures memoryEntry),
                           lastUpdated = now\<rparr>)]
                  else conceptClusters s);
               clusters2 =
                 AList.map_entry clusterId (\<lambda>c. c\<lparr>members := setAdd memId (members c)\<rparr>) clusters1
           in updateClusterCentroid (s\<lparr>conceptClusters := clusters2\<rparr>) clusterId now))"

definition getMemoryClusters :: "tensor_memory \<Rightarrow> string \<Rightarrow> (string \<times> concept_cluster) list" where
  "getMemoryClusters s memId =
     filter (\<lambda>(clusterId, cluster). memId \<in> set (members cluster)) (conceptClusters s)"

section \<open>Removal and eviction\<close>

text \<open>\<^verbatim>\<open>findIndex\<close> followed by \<^verbatim>\<open>splice(index, 1)\<close>: the first match is removed.\<close>

fun removeFirst :: "('a \<Rightarrow> bool) \<Rightarrow> 'a list \<Rightarrow> 'a list" where
  "removeFirst P [] = []"
| "removeFirst P (x # xs) = (if P x then xs else x # removeFirst P xs)"

definition removeMemory :: "tensor_memory \<Rightarrow> string \<Rightarrow> tensor_memory" where
  "removeMemory s memId =
     s\<lparr>memoryStore := AList.delete memId (memoryStore s),
       embeddingIndex := AList.delete memId (embeddingIndex s),
       relationshipGraph :=
         map (\<lambda>(key, relationships).
                (key, removeFirst (\<lambda>rel. targetId rel = memId) relationships))
           (AList.delete memId (relationshipGraph s)),
       conceptClusters :=
         map (\<lambda>(key, cluster). (key, cluster\<lparr>members := setDelete memId (members cluster)\<rparr>))
           (conceptClusters s),
       hourBuckets := deleteFromIndex memId (hourBuckets s),
       dayBuckets := deleteFromIndex memId (dayBuckets s),
       weekBuckets := deleteFromIndex memId (weekBuckets s),
       monthBuckets := deleteFromIndex memId (monthBuckets s),
       semanticCategories := deleteFromIndex memId (semanticCategories s),
       domainClusters := deleteFromIndex memId (domainClusters s)\<rparr>"

text \<open>
  \<^verbatim>\<open>Array.prototype.sort\<close> with a comparison function: \<open>x\<close> goes after \<open>y\<close> when the
  function returns a positive number for them, a result of \<^verbatim>\<open>NaN\<close> counts as 0, and the
  sort is stable, so that elements which compare as equal stay in the order of the
  array. When the function is a consistent ordering of the elements this fixes the
  result, which the insertion sort below computes. When it is not, here for a store that
  holds numbers which differ next to strings, the language leaves the order to the
  implementation; the definition then gives one of the admissible orders, and the
  statements on the order below are made for timestamps of one kind.
\<close>

fun insertSorted :: "('a \<Rightarrow> 'a \<Rightarrow> jsnum) \<Rightarrow> 'a \<Rightarrow> 'a list \<Rightarrow> 'a list" where
  "insertSorted compareFn x [] = [x]"
| "insertSorted compareFn x (y # ys) =
     (if jgt (compareFn x y) 0 then y # insertSorted compareFn x ys else x # y # ys)"

definition arraySort :: "('a \<Rightarrow> 'a \<Rightarrow> jsnum) \<Rightarrow> 'a list \<Rightarrow> 'a list" where
  "arraySort compareFn xs = foldr (insertSorted compareFn) xs []"

definition sortedMemories :: "tensor_memory \<Rightarrow> (string \<times> memory_entry) list" where
  "sortedMemories s =
     arraySort (\<lambda>a b. timeDifference (timestamp (snd a)) (timestamp (snd b))) (memoryStore s)"

definition toRemove :: "tensor_memory \<Rightarrow> (string \<times> memory_entry) list" where
  "toRemove s =
     sliceFromStart (int (length (memoryStore s)) - maxMemories s) (sortedMemories s)"

definition maintainMemoryLimits :: "tensor_memory \<Rightarrow> tensor_memory" where
  "maintainMemoryLimits s =
     (if int (length (memoryStore s)) \<le> maxMemories s then s
      else foldl (\<lambda>st (memId, entry). removeMemory st memId) s (toRemove s))"

section \<open>storeMemory\<close>

record store_result =
  res_memoryId :: "string option"
  stored :: bool
  relationships :: nat
  clusters :: nat
  res_error :: "js_error option"

text \<open>
  The statements of the \<^verbatim>\<open>try\<close> block after \<^verbatim>\<open>createMemoryEntry\<close>, for any entry:
  those that run before \<^verbatim>\<open>discoverRelationships\<close>, those that run before
  \<^verbatim>\<open>maintainMemoryLimits\<close>, and all of them.
\<close>

definition prepareIndices :: "tensor_memory \<Rightarrow> string \<Rightarrow> memory_entry \<Rightarrow> tensor_memory" where
  "prepareIndices s memId memoryEntry =
     (let s1 = s\<lparr>memoryStore := AList.update memId memoryEntry (memoryStore s)\<rparr>;
          s2 = indexEmbeddings s1 memId memoryEntry;
          s3 = updateTemporalIndices s2 memId memoryEntry;
          s4 = updateSemanticCategories s3 memId memoryEntry
      in updateDomainClusters s4 memId memoryEntry)"

definition indexEntry ::
  "tensor_memory \<Rightarrow> string \<Rightarrow> string \<Rightarrow> int \<Rightarrow> memory_entry \<Rightarrow> tensor_memory" where
  "indexEntry s memId newClusterId now memoryEntry =
     (let s5 = prepareIndices s memId memoryEntry;
          s6 = discoverRelationships s5 memId memoryEntry
      in updateConceptClusters s6 memId memoryEntry newClusterId now)"

definition storeEntry ::
  "tensor_memory \<Rightarrow> string \<Rightarrow> string \<Rightarrow> int \<Rightarrow> memory_entry \<Rightarrow> tensor_memory" where
  "storeEntry s memId newClusterId now memoryEntry =
     maintainMemoryLimits (indexEntry s memId newClusterId now memoryEntry)"

text \<open>
  The identifier \<open>memId\<close> is the one that \<^verbatim>\<open>storeMemory\<close> builds from the clock and a
  random number before the \<^verbatim>\<open>try\<close> block.
\<close>

definition storeMemory ::
  "(string \<Rightarrow> string option) \<Rightarrow> tensor_memory \<Rightarrow> string \<Rightarrow> string \<Rightarrow> int \<Rightarrow>
   orchestration_result \<Rightarrow> tensor_memory \<times> store_result" where
  "storeMemory hostname s memId newClusterId now orchestrationResult =
     (case createMemoryEntry hostname memId orchestrationResult of
        Inl e \<Rightarrow>
          (s, \<lparr>res_memoryId = None, stored = False, relationships = 0, clusters = 0,
               res_error = Some e\<rparr>)
      | Inr memoryEntry \<Rightarrow>
          (let s' = storeEntry s memId newClusterId now memoryEntry
           in (s', \<lparr>res_memoryId = Some memId, stored = True,
                    relationships =
                      (case map_of (relationshipGraph s') memId of
                         None \<Rightarrow> 0 | Some rels \<Rightarrow> length rels),
                    clusters = length (getMemoryClusters s' memId),
                    res_error = None\<rparr>)))"

section \<open>Search\<close>

text \<open>
  \<^verbatim>\<open>generateQueryEmbedding\<close> asks the embedding provider over HTTP. The request throws,
  or answers with a status that is not ok, or answers with a body whose \<^verbatim>\<open>embedding\<close>
  field is returned as it is.
\<close>

datatype fetch_outcome = FetchThrows | ResponseNotOk | ResponseOk "jsnum list option"

fun generateQueryEmbedding :: "fetch_outcome \<Rightarrow> jsnum list option" where
  "generateQueryEmbedding FetchThrows = None"
| "generateQueryEmbedding ResponseNotOk = None"
| "generateQueryEmbedding (ResponseOk embedding) = embedding"

record search_options =
  limit :: int
  threshold :: real
  includeRelationships :: bool
  temporalFilter :: "(jstime \<times> jstime) option"
  domainFilter :: "string option"
  categoryFilter :: "string option"

definition defaultOptions :: search_options where
  "defaultOptions =
     \<lparr>limit = 10, threshold = 0.7, includeRelationships = True, temporalFilter = None,
      domainFilter = None, categoryFilter = None\<rparr>"

record related_memory =
  rm_type :: string
  rm_strength :: real
  rm_memory :: memory_entry

record search_hit =
  hit_memoryId :: string
  similarity :: real
  hit_memory :: memory_entry
  hit_url :: string
  hit_timestamp :: jstime
  hit_summary :: string
  hit_relationships :: "related_memory list option"

record search_metrics =
  queryEmbeddingGenerated :: bool
  memoryStoreSize :: nat
  averageSimilarity :: jsnum

record search_result =
  sr_query :: string
  results :: "search_hit list"
  totalFound :: nat
  searchMetrics :: "search_metrics option"
  sr_error :: "js_error option"

text \<open>
  A stored entry has no \<^verbatim>\<open>textAnalysis\<close> and no \<^verbatim>\<open>visionAnalysis\<close> under
  \<^verbatim>\<open>agentOutputs\<close>, so the text and the vision summaries read by
  \<^verbatim>\<open>generateMemorySummary\<close> are always empty.
\<close>

definition generateMemorySummary :: "memory_entry \<Rightarrow> string" where
  "generateMemorySummary memory =
     (let textSummary = [];
          visionSummary = [];
          unifiedSummary = take 200 (ao_unifiedAnalysis (agentOutputs memory))
      in if unifiedSummary \<noteq> [] then unifiedSummary @ ''...''
         else if textSummary \<noteq> [] \<and> visionSummary \<noteq> []
              then textSummary @ ''... | '' @ visionSummary @ ''...''
         else if textSummary \<noteq> [] then textSummary
         else if visionSummary \<noteq> [] then visionSummary
         else ''No summary available'')"

text \<open>
  The loop of \<^verbatim>\<open>findSimilarMemories\<close>. Reading \<^verbatim>\<open>memory.url\<close> throws when the
  embedding index holds an id that the memory store does not.
\<close>

fun findSimilarLoop ::
  "memory_entry jsmap \<Rightarrow> jsnum list \<Rightarrow> real \<Rightarrow> embeddings_tensor jsmap \<Rightarrow>
   js_error + search_hit list" where
  "findSimilarLoop store queryEmbedding bound [] = Inr []"
| "findSimilarLoop store queryEmbedding bound ((memId, embeddings) # rest) =
     (case unified embeddings of
        None \<Rightarrow> findSimilarLoop store queryEmbedding bound rest
      | Some other \<Rightarrow>
          (let sim = calculateCosineSimilarity (Some queryEmbedding) (Some other)
           in if jge sim bound
              then (case map_of store memId of
                      None \<Rightarrow> Inl TypeError
                    | Some memory \<Rightarrow>
                        (case findSimilarLoop store queryEmbedding bound rest of
                           Inl e \<Rightarrow> Inl e
                         | Inr hits \<Rightarrow>
                             Inr (\<lparr>hit_memoryId = memId, similarity = numval sim,
                                   hit_memory = memory, hit_url = url memory,
                                   hit_timestamp = timestamp memory,
                                   hit_summary = generateMemorySummary memory,
                                   hit_relationships = None\<rparr> # hits)))
              else findSimilarLoop store queryEmbedding bound rest))"

definition findSimilarMemories ::
  "tensor_memory \<Rightarrow> jsnum list option \<Rightarrow> real \<Rightarrow> js_error + search_hit list" where
  "findSimilarMemories s queryEmbedding bound =
     (case queryEmbedding of
        None \<Rightarrow> Inr []
      | Some q \<Rightarrow> findSimilarLoop (memoryStore s) q bound (embeddingIndex s))"

definition applyFilters :: "search_hit list \<Rightarrow> search_options \<Rightarrow> search_hit list" where
  "applyFilters hits filters =
     (let f1 = (if truthyStr (domainFilter filters)
                then filter (\<lambda>r. domain (hit_memory r) = the (domainFilter filters)) hits
                else hits);
          f2 = (if truthyStr (categoryFilter filters)
                then filter (\<lambda>r. the (categoryFilter filters)
                                    \<in> set (categories (semanticFeatures (hit_memory r)))) f1
                else f1)
      in case temporalFilter filters of
           None \<Rightarrow> f2
         | Some (start, stop) \<Rightarrow>
             filter (\<lambda>r. timeGe (timestamp (hit_memory r)) start
                         \<and> timeLe (timestamp (hit_memory r)) stop) f2)"

definition enhanceWithRelationships :: "tensor_memory \<Rightarrow> search_hit list \<Rightarrow> search_hit list" where
  "enhanceWithRelationships s hits =
     map (\<lambda>r.
       (let rels = edgesOf (relationshipGraph s) (hit_memoryId r);
            relatedMemories =
              concat (map (\<lambda>rel. case map_of (memoryStore s) (targetId rel) of
                                    None \<Rightarrow> []
                                  | Some m \<Rightarrow> [\<lparr>rm_type = rel_type rel,
                                                rm_strength = strength rel, rm_memory = m\<rparr>])
                        rels)
        in r\<lparr>hit_relationships := Some relatedMemories\<rparr>)) hits"

definition searchMemories ::
  "tensor_memory \<Rightarrow> string \<Rightarrow> search_options \<Rightarrow> fetch_outcome \<Rightarrow> search_result" where
  "searchMemories s query options provider =
     (let queryEmbedding = generateQueryEmbedding provider
      in case findSimilarMemories s queryEmbedding (threshold options) of
           Inl e \<Rightarrow>
             \<lparr>sr_query = query, results = [], totalFound = 0, searchMetrics = None,
              sr_error = Some e\<rparr>
         | Inr similarities \<Rightarrow>
             (let filtered = applyFilters similarities options;
                  ranked = sliceFromStart (limit options)
                             (sort_key (\<lambda>r. - similarity r) filtered);
                  filteredResults = (if includeRelationships options
                                     then enhanceWithRelationships s ranked else ranked)
              in \<lparr>sr_query = query, results = filteredResults,
                  totalFound = length filteredResults,
                  searchMetrics =
                    Some \<lparr>queryEmbeddingGenerated = (queryEmbedding \<noteq> None),
                          memoryStoreSize = length (memoryStore s),
                          averageSimilarity =
                            jdiv (Num (foldl (\<lambda>acc r. acc + similarity r) 0 filteredResults))
                                 (Num (real (length filteredResults)))\<rparr>,
                  sr_error = None\<rparr>))"

section \<open>The topic contract in the words of the specification\<close>

text \<open>
  The specification describes the topics as the ten longest tokens of the combined
  analysis text that are not stopwords, lowercased, without duplicates, in the order of
  their first occurrence. The combined text is the text summary followed by the vision
  synthesis. Among tokens of equal length the earlier one is preferred.
\<close>

definition combinedText :: "agent_results \<Rightarrow> string" where
  "combinedText ar = strOr (textSummaryOf ar) [] @ '' '' @ strOr (visionSynthesisOf ar) []"

definition spec_topics :: "string \<Rightarrow> string list" where
  "spec_topics txt =
     (let tokens = uniqueInOrder
                     (filter (\<lambda>w. w \<noteq> [] \<and> w \<notin> set commonWords)
                        (splitWhitespace [] (toLowerCase txt)));
          longest = take 10 (sort_key (\<lambda>w. - int (length w)) tokens)
      in filter (\<lambda>w. w \<in> set longest) tokens)"

definition summaryOnly :: "string \<Rightarrow> agent_results" where
  "summaryOnly txt =
     \<lparr>ar_text = Some \<lparr>tr_textAnalysis =
                         Some \<lparr>ta_summary = Some txt, ta_metadata = None, ta_embeddings = None\<rparr>,
                       tr_confidence = None, tr_agentId = None\<rparr>,
      ar_vision = None\<rparr>"

section \<open>Insertion order\<close>


section \<open>Sample inputs\<close>

text \<open>
  A host name parser that knows one address, and an orchestration result for that
  address at a given time: no text agent, no vision agent, and a unified embedding
  produced by the orchestrator.
\<close>

definition exampleHostname :: "string \<Rightarrow> string option" where
  "exampleHostname u = (if u = ''https://example.com/page'' then Some ''example.com'' else None)"

definition bareResult :: "int \<Rightarrow> orchestration_result" where
  "bareResult ts =
     \<lparr>or_timestamp = Millis ts, or_url = ''https://example.com/page'', or_agentId = None,
      or_agentResults = Some \<lparr>ar_text = None, ar_vision = None\<rparr>,
      or_orchestratorSynthesis =
        Some \<lparr>os_unifiedAnalysis = None, os_embeddings = Some [Num 1, Num 0],
              os_confidence = None\<rparr>,
      or_qualityMetrics = Some \<lparr>qm_overallScore = None\<rparr>,
      or_orchestrationMetadata =
        Some \<lparr>om_processingTime = None, om_synthesisApproach = None\<rparr>\<rparr>"

text \<open>
  A stored entry with a given identifier, timestamp and unified embedding, on the sample
  address, and a sequence of calls of \<^verbatim>\<open>storeMemory\<close>, each with its identifier, the
  identifier for a new cluster, the clock and the raw result.
\<close>

definition plainEntry :: "string \<Rightarrow> int \<Rightarrow> jsnum list option \<Rightarrow> memory_entry" where
  "plainEntry memId ts emb =
     \<lparr>memoryId = memId, timestamp = Millis ts, url = ''https://example.com/page'',
      domain = ''example.com'',
      agentOutputs =
        \<lparr>ao_textSummary = [], ao_textConfidence = 0, ao_visionSynthesis = [],
         ao_visionConfidence = 0, ao_unifiedAnalysis = [], ao_orchestratorConfidence = 0\<rparr>,
      embeddingsTensor =
        \<lparr>unified = emb, textEmb = None, vision = None,
         dimension = (case emb of None \<Rightarrow> 0 | Some v \<Rightarrow> length v)\<rparr>,
      semanticFeatures =
        \<lparr>contentType = ''general'', pageType = ''page'', topics = [],
         categories = [''article''], quality = None, confidence = None\<rparr>,
      temporalFeatures =
        \<lparr>tf_hour = getHours ts, tf_dayOfWeek = getDay ts, tf_month = getMonth ts,
         tf_season = getSeason ts\<rparr>,
      provenance =
        \<lparr>pv_textAgent = None, pv_visionAgent = None, pv_orchestratorAgent = None,
         pv_processingTime = None, pv_synthesisApproach = None\<rparr>\<rparr>"

fun storeSequence ::
  "(string \<Rightarrow> string option) \<Rightarrow> tensor_memory \<Rightarrow>
   (string \<times> string \<times> int \<times> orchestration_result) list \<Rightarrow> tensor_memory" where
  "storeSequence hostname s [] = s"
| "storeSequence hostname s ((memId, newClusterId, now, r) # rest) =
     storeSequence hostname (fst (storeMemory hostname s memId newClusterId now r)) rest"


text \<open>
  A store of capacity 2 after two calls of \<^verbatim>\<open>storeMemory\<close> for the same address on the
  same day, and after a third one, which evicts the first record.
\<close>

definition twoStored :: tensor_memory where
  "twoStored =
     storeSequence exampleHostname (newMemory 2)
       [(''memory-1'', ''cluster-1'', 0, bareResult 1000),
        (''memory-2'', ''cluster-2'', 0, bareResult 2000)]"

definition thirdStored :: tensor_memory where
  "thirdStored =
     fst (storeMemory exampleHostname twoStored ''memory-3'' ''cluster-3'' 0 (bareResult 3000))"

text \<open>
  A store with room after one call of \<^verbatim>\<open>storeMemory\<close>, and the entries that
  \<^verbatim>\<open>createMemoryEntry\<close> builds for a second and for a third record.
\<close>

definition oneStored :: tensor_memory where
  "oneStored =
     storeSequence exampleHostname (newMemory 100)
       [(''memory-1'', ''cluster-1'', 0, bareResult 1000)]"

definition secondEntry :: memory_entry where
  "secondEntry = projr (createMemoryEntry exampleHostname ''memory-2'' (bareResult 2000))"

definition thirdEntry :: memory_entry where
  "thirdEntry = projr (createMemoryEntry exampleHostname ''memory-3'' (bareResult 3000))"

text \<open>
  A store with room after the insertion of two entries whose unified embeddings are
  \<open>(1, 0)\<close> and \<open>(4, 3)\<close>: their similarity is 0.8, so each has a cluster of its own.
\<close>

definition twoClusters :: tensor_memory where
  "twoClusters =
     storeEntry
       (storeEntry (newMemory 100) ''memory-1'' ''cluster-1'' 0
          (plainEntry ''memory-1'' 1000 (Some [Num 1, Num 0])))
       ''memory-2'' ''cluster-2'' 0 (plainEntry ''memory-2'' 2000 (Some [Num 4, Num 3]))"

text \<open>
  The store after the first of the two insertions, its only cluster, a third entry
  whose embedding \<open>(12, 5)\<close> is close to both \<open>(1, 0)\<close> and \<open>(4, 3)\<close>, and the state
  in which the cluster assignment of the third entry runs.
\<close>

definition oneCluster :: tensor_memory where
  "oneCluster =
     storeEntry (newMemory 100) ''memory-1'' ''cluster-1'' 0
       (plainEntry ''memory-1'' 1000 (Some [Num 1, Num 0]))"

definition firstCluster :: concept_cluster where
  "firstCluster =
     \<lparr>cluster_id = ''cluster-1'', centroid = [Num 1, Num 0], members = [''memory-1''],
      concept = ''general: '', lastUpdated = 0\<rparr>"

definition closeEntry :: memory_entry where
  "closeEntry = plainEntry ''memory-3'' 3000 (Some [Num 12, Num 5])"

definition closePrepared :: tensor_memory where
  "closePrepared =
     discoverRelationships (prepareIndices oneCluster ''memory-3'' closeEntry)
       ''memory-3'' closeEntry"








section \<open>Evaluation\<close>

text \<open>
  The square root of a real number is not executable. The code equation below lets the
  evaluation of a concrete call go through wherever the root is not needed, or is that
  of 0, 1, 25 or 169.
\<close>

lemma mathSqrt_code [code]:
  "mathSqrt x =
     (if x = 0 then 0 else if x = 1 then 1 else if x = 25 then 5 else if x = 169 then 13
      else mathSqrt x)"
proof -
  have "sqrt 25 = 5" by (rule real_sqrt_unique) auto
  moreover have "sqrt 169 = 13" by (rule real_sqrt_unique) auto
  ultimately show ?thesis by (simp add: mathSqrt_def)
qed

section \<open>Cosine similarity\<close>













section \<open>Search with a failing embedding provider\<close>

lemma searchMemories_no_embedding:
  assumes "generateQueryEmbedding provider = None"
  shows "results (searchMemories s query options provider) = []"
    and "totalFound (searchMemories s query options provider) = 0"
    and "sr_error (searchMemories s query options provider) = None"
    and "\<exists>m. searchMetrics (searchMemories s query options provider) = Some m
           \<and> \<not> queryEmbeddingGenerated m"
proof -
  have "applyFilters [] options = []"
    by (simp add: applyFilters_def split: option.splits)
  then show "results (searchMemories s query options provider) = []"
    and "totalFound (searchMemories s query options provider) = 0"
    and "sr_error (searchMemories s query options provider) = None"
    and "\<exists>m. searchMetrics (searchMemories s query options provider) = Some m
           \<and> \<not> queryEmbeddingGenerated m"
    using assms
    by (simp_all add: searchMemories_def findSimilarMemories_def sliceFromStart_def
        enhanceWithRelationships_def)
qed

lemma queryEmbeddingGenerated_exact:
  "searchMetrics (searchMemories s query options provider) = Some m \<Longrightarrow>
   queryEmbeddingGenerated m = (generateQueryEmbedding provider \<noteq> None)"
  by (auto simp: searchMemories_def Let_def split: sum.splits)

text \<open>
  Claim C8. \<^verbatim>\<open>generateQueryEmbedding\<close> catches the failure of the embedding provider (the
  request throws, or the answer is not ok, or it carries no embedding) and returns
  \<^verbatim>\<open>null\<close>. \<^verbatim>\<open>searchMemories\<close> then returns a result object and throws nothing: the
  list of results is empty, the total is 0, no exception was caught on the way, and the
  field \<^verbatim>\<open>queryEmbeddingGenerated\<close> of the search metrics is false. This field is the
  indicator of the failure: in any result that carries search metrics it is false
  exactly when the provider gave no embedding.
\<close>

theorem search_provider_failure:
  "generateQueryEmbedding provider = None \<Longrightarrow>
   results (searchMemories s query options provider) = []
   \<and> totalFound (searchMemories s query options provider) = 0
   \<and> sr_error (searchMemories s query options provider) = None
   \<and> (\<exists>m. searchMetrics (searchMemories s query options provider) = Some m
          \<and> \<not> queryEmbeddingGenerated m)
   \<and> (\<forall>p m'. searchMetrics (searchMemories s query options p) = Some m' \<longrightarrow>
          queryEmbeddingGenerated m' = (generateQueryEmbedding p \<noteq> None))"
  using searchMemories_no_embedding[of provider s query options]
    queryEmbeddingGenerated_exact[of s query options]
  by blast

theorem search_provider_failure_witness:
  "generateQueryEmbedding FetchThrows = None
   \<and> results (searchMemories twoStored ''tensor'' defaultOptions FetchThrows) = []
   \<and> (\<exists>m. searchMetrics (searchMemories twoStored ''tensor'' defaultOptions FetchThrows) = Some m
          \<and> \<not> queryEmbeddingGenerated m)"
  using search_provider_failure[of FetchThrows twoStored "''tensor''" defaultOptions]
  by simp

text \<open>
  Claim C10. Whenever \<^verbatim>\<open>searchMemories\<close> completes (the \<^verbatim>\<open>catch\<close> branch is not taken)
  with an empty list of results, the average similarity of the search metrics is the
  quotient of 0 by 0, which is \<^verbatim>\<open>NaN\<close>: the division by the number of results is not
  guarded.
\<close>

theorem average_similarity_nan:
  "sr_error (searchMemories s query options provider) = None \<Longrightarrow>
   results (searchMemories s query options provider) = [] \<Longrightarrow>
   (\<exists>m. searchMetrics (searchMemories s query options provider) = Some m
        \<and> averageSimilarity m = jdiv (Num 0) (Num 0)
        \<and> averageSimilarity m = NaN)"
  by (auto simp: searchMemories_def Let_def split: sum.splits if_splits)

theorem average_similarity_nan_witness:
  "sr_error (searchMemories (newMemory 100) ''tensor'' defaultOptions (ResponseOk (Some [Num 1]))) = None
   \<and> results (searchMemories (newMemory 100) ''tensor'' defaultOptions (ResponseOk (Some [Num 1]))) = []
   \<and> (\<exists>m. searchMetrics (searchMemories (newMemory 100) ''tensor'' defaultOptions
              (ResponseOk (Some [Num 1]))) = Some m
          \<and> averageSimilarity m = NaN)"
proof -
  have e: "sr_error (searchMemories (newMemory 100) ''tensor'' defaultOptions (ResponseOk (Some [Num 1]))) = None"
    by (simp add: searchMemories_def findSimilarMemories_def newMemory_def Let_def)
  have r: "results (searchMemories (newMemory 100) ''tensor'' defaultOptions (ResponseOk (Some [Num 1]))) = []"
    by (simp add: searchMemories_def findSimilarMemories_def newMemory_def Let_def
        applyFilters_def defaultOptions_def truthyStr_def sliceFromStart_def
        enhanceWithRelationships_def)
  from average_similarity_nan[OF e r] e r show ?thesis by blast
qed

section \<open>Topics\<close>

lemma set_setAdd: "set (setAdd x xs) = insert x (set xs)"
  by (auto simp: setAdd_def)

lemma distinct_setAdd: "distinct xs \<Longrightarrow> distinct (setAdd x xs)"
  by (simp add: setAdd_def)

lemma uniqueInOrder_snoc: "uniqueInOrder (xs @ [x]) = setAdd x (uniqueInOrder xs)"
  by (simp add: uniqueInOrder_def)

lemma uniqueInOrder_first_occurrences: "uniqueInOrder xs = rev (remdups (rev xs))"
proof (induction xs rule: rev_induct)
  case Nil
  then show ?case by (simp add: uniqueInOrder_def)
next
  case (snoc x xs)
  then show ?case by (simp add: uniqueInOrder_snoc setAdd_def)
qed

lemma length_uniqueInOrder: "length (uniqueInOrder xs) \<le> length xs"
  by (simp add: uniqueInOrder_first_occurrences length_remdups_leq[of "rev xs", simplified])

lemma length_extractTopicsFromText: "length (extractTopicsFromText txt) \<le> 5"
  by (simp add: extractTopicsFromText_def)

lemma set_extractTopicsFromText:
  "w \<in> set (extractTopicsFromText txt) \<Longrightarrow>
   3 < length w \<and> w \<notin> set commonWords \<and> w \<in> set (splitWhitespace [] (toLowerCase txt))"
  by (auto simp: extractTopicsFromText_def dest: in_set_takeD)

text \<open>
  Claim C9, as the code has it. The topics are the first five tokens of the lowercased
  text summary that are longer than three characters and are not stopwords, followed by
  the first five such tokens of the lowercased vision synthesis, with only the first
  occurrence of every token kept. There are at most ten of them, each is such a token of
  one of the two texts, and none is chosen for its length.
\<close>

theorem topics_first_five_of_each_text:
  "extractTopics ar =
     rev (remdups (rev
       (take 5 (filter (\<lambda>w. 3 < length w \<and> w \<notin> set commonWords)
                  (splitWhitespace [] (toLowerCase (strOr (textSummaryOf ar) []))))
        @ take 5 (filter (\<lambda>w. 3 < length w \<and> w \<notin> set commonWords)
                    (splitWhitespace [] (toLowerCase (strOr (visionSynthesisOf ar) [])))))))
   \<and> distinct (extractTopics ar)
   \<and> length (extractTopics ar) \<le> 10
   \<and> (\<forall>w\<in>set (extractTopics ar).
         3 < length w \<and> w \<notin> set commonWords
         \<and> (w \<in> set (splitWhitespace [] (toLowerCase (strOr (textSummaryOf ar) [])))
            \<or> w \<in> set (splitWhitespace [] (toLowerCase (strOr (visionSynthesisOf ar) [])))))"
proof -
  let ?t = "extractTopicsFromText (strOr (textSummaryOf ar) [])"
  let ?v = "extractTopicsFromText (strOr (visionSynthesisOf ar) [])"
  have len: "length (uniqueInOrder (?t @ ?v)) \<le> 10"
    using length_uniqueInOrder[of "?t @ ?v"] length_extractTopicsFromText[of "strOr (textSummaryOf ar) []"]
      length_extractTopicsFromText[of "strOr (visionSynthesisOf ar) []"]
    by simp
  then have eq: "extractTopics ar = uniqueInOrder (?t @ ?v)"
    by (simp add: extractTopics_def Let_def)
  have 1: "extractTopics ar = rev (remdups (rev (?t @ ?v)))"
    using eq by (simp only: uniqueInOrder_first_occurrences)
  have 2: "distinct (extractTopics ar)"
    unfolding 1 by simp
  have 3: "length (extractTopics ar) \<le> 10"
    using eq len by simp
  have 4: "\<forall>w\<in>set (extractTopics ar).
         3 < length w \<and> w \<notin> set commonWords
         \<and> (w \<in> set (splitWhitespace [] (toLowerCase (strOr (textSummaryOf ar) [])))
            \<or> w \<in> set (splitWhitespace [] (toLowerCase (strOr (visionSynthesisOf ar) []))))"
  proof
    fix w assume "w \<in> set (extractTopics ar)"
    then have "w \<in> set ?t \<or> w \<in> set ?v" unfolding 1 by auto
    then show "3 < length w \<and> w \<notin> set commonWords
         \<and> (w \<in> set (splitWhitespace [] (toLowerCase (strOr (textSummaryOf ar) [])))
            \<or> w \<in> set (splitWhitespace [] (toLowerCase (strOr (visionSynthesisOf ar) []))))"
      using set_extractTopicsFromText by blast
  qed
  have 5: "extractTopics ar =
     rev (remdups (rev
       (take 5 (filter (\<lambda>w. 3 < length w \<and> w \<notin> set commonWords)
                  (splitWhitespace [] (toLowerCase (strOr (textSummaryOf ar) []))))
        @ take 5 (filter (\<lambda>w. 3 < length w \<and> w \<notin> set commonWords)
                    (splitWhitespace [] (toLowerCase (strOr (visionSynthesisOf ar) [])))))))"
    using 1 by (simp only: extractTopicsFromText_def)
  show ?thesis
    by (rule conjI[OF 5 conjI[OF 2 conjI[OF 3 4]]])
qed

theorem topics_first_five_of_each_text_witness:
  "extractTopics (summaryOnly ''The Quick brown fox and THE quick dog'') = [''quick'', ''brown'']
   \<and> ''quick'' \<in> set (extractTopics (summaryOnly ''The Quick brown fox and THE quick dog''))
   \<and> 3 < length ''quick'' \<and> ''quick'' \<notin> set commonWords
   \<and> distinct (extractTopics (summaryOnly ''The Quick brown fox and THE quick dog''))"
proof -
  have e: "extractTopics (summaryOnly ''The Quick brown fox and THE quick dog'') = [''quick'', ''brown'']"
    by code_simp
  then have m: "''quick'' \<in> set (extractTopics (summaryOnly ''The Quick brown fox and THE quick dog''))"
    by simp
  have "\<forall>w\<in>set (extractTopics (summaryOnly ''The Quick brown fox and THE quick dog'')).
         3 < length w \<and> w \<notin> set commonWords"
    and d: "distinct (extractTopics (summaryOnly ''The Quick brown fox and THE quick dog''))"
    using topics_first_five_of_each_text[of "summaryOnly ''The Quick brown fox and THE quick dog''"]
    by blast+
  with m have "3 < length ''quick'' \<and> ''quick'' \<notin> set commonWords"
    by blast
  with e m d show ?thesis by blast
qed

text \<open>
  Claim C9, as the specification states it, fails: the sixth token of this summary is
  its longest, and it is not among the topics.
\<close>

theorem topics_longest_counterexample:
  "extractTopics (summaryOnly ''news about quantum computing research breakthroughs'')
     = [''news'', ''about'', ''quantum'', ''computing'', ''research'']
   \<and> spec_topics (combinedText (summaryOnly ''news about quantum computing research breakthroughs''))
     = [''news'', ''about'', ''quantum'', ''computing'', ''research'', ''breakthroughs'']"
  by code_simp

section \<open>The memory store along the insertion steps\<close>

lemma memoryStore_indexEmbeddings [simp]:
  "memoryStore (indexEmbeddings s i e) = memoryStore s"
  by (simp add: indexEmbeddings_def Let_def split: option.splits)

lemma memoryStore_addToTemporalBucket [simp]:
  "memoryStore (addToTemporalBucket b k i s) = memoryStore s"
  by (cases b) simp_all

lemma memoryStore_updateTemporalIndices [simp]:
  "memoryStore (updateTemporalIndices s i e) = memoryStore s"
  by (simp add: updateTemporalIndices_def Let_def)

lemma memoryStore_updateSemanticCategories [simp]:
  "memoryStore (updateSemanticCategories s i e) = memoryStore s"
  by (simp add: updateSemanticCategories_def)

lemma memoryStore_updateDomainClusters [simp]:
  "memoryStore (updateDomainClusters s i e) = memoryStore s"
  by (simp add: updateDomainClusters_def)

lemma memoryStore_discoverRelationships [simp]:
  "memoryStore (discoverRelationships s i e) = memoryStore s"
  by (simp add: discoverRelationships_def Let_def)

lemma memoryStore_updateClusterCentroid [simp]:
  "memoryStore (updateClusterCentroid s c now) = memoryStore s"
  by (simp add: updateClusterCentroid_def Let_def split: option.splits list.splits)

lemma memoryStore_updateConceptClusters [simp]:
  "memoryStore (updateConceptClusters s i e c now) = memoryStore s"
  by (simp add: updateConceptClusters_def Let_def split: option.splits)

lemma memoryStore_prepareIndices [simp]:
  "memoryStore (prepareIndices s i e) = AList.update i e (memoryStore s)"
  by (simp add: prepareIndices_def Let_def)

lemma memoryStore_indexEntry [simp]:
  "memoryStore (indexEntry s i c now e) = AList.update i e (memoryStore s)"
  by (simp add: indexEntry_def Let_def)

lemma maxMemories_indexEmbeddings [simp]:
  "maxMemories (indexEmbeddings s i e) = maxMemories s"
  by (simp add: indexEmbeddings_def Let_def split: option.splits)

lemma maxMemories_addToTemporalBucket [simp]:
  "maxMemories (addToTemporalBucket b k i s) = maxMemories s"
  by (cases b) simp_all

lemma maxMemories_updateTemporalIndices [simp]:
  "maxMemories (updateTemporalIndices s i e) = maxMemories s"
  by (simp add: updateTemporalIndices_def Let_def)

lemma maxMemories_updateClusterCentroid [simp]:
  "maxMemories (updateClusterCentroid s c now) = maxMemories s"
  by (simp add: updateClusterCentroid_def Let_def split: option.splits list.splits)

lemma maxMemories_updateConceptClusters [simp]:
  "maxMemories (updateConceptClusters s i e c now) = maxMemories s"
  by (simp add: updateConceptClusters_def Let_def split: option.splits)

lemma maxMemories_indexEntry [simp]:
  "maxMemories (indexEntry s i c now e) = maxMemories s"
  by (simp add: indexEntry_def prepareIndices_def updateDomainClusters_def
      updateSemanticCategories_def discoverRelationships_def Let_def)





section \<open>Eviction\<close>

lemma memoryStore_removeMemory [simp]:
  "memoryStore (removeMemory s k) = AList.delete k (memoryStore s)"
  by (simp add: removeMemory_def)

lemma maxMemories_removeMemory [simp]:
  "maxMemories (removeMemory s k) = maxMemories s"
  by (simp add: removeMemory_def)

lemma memoryStore_fold_removeMemory_fst:
  "memoryStore (foldl (\<lambda>st p. removeMemory st (fst p)) s R) =
     filter (\<lambda>p. fst p \<notin> fst ` set R) (memoryStore s)"
proof (induction R arbitrary: s)
  case Nil
  then show ?case by simp
next
  case (Cons r R)
  have "filter (\<lambda>p. fst p \<notin> fst ` set R) (AList.delete (fst r) (memoryStore s)) =
        filter (\<lambda>p. fst p \<notin> fst ` set (r # R)) (memoryStore s)"
    by (auto simp: AList.delete_eq case_prod_unfold intro: filter_cong)
  then show ?case by (simp add: Cons.IH)
qed

lemma memoryStore_fold_removeMemory:
  "memoryStore (foldl (\<lambda>st (memId, entry). removeMemory st memId) s R) =
     filter (\<lambda>p. fst p \<notin> fst ` set R) (memoryStore s)"
  using memoryStore_fold_removeMemory_fst[of s R] by (simp add: case_prod_unfold)

























lemma maintain_store:
  assumes big: "maxMemories s < int (length (memoryStore s))"
  shows "memoryStore (maintainMemoryLimits s) =
           filter (\<lambda>p. fst p \<notin> fst ` set (toRemove s)) (memoryStore s)"
  using big by (simp add: maintainMemoryLimits_def memoryStore_fold_removeMemory)















section \<open>Storing a record built from a partial result\<close>





section \<open>Relationships\<close>

lemma edgesOf_update:
  "edgesOf (AList.update k v g) k' = (if k' = k then v else edgesOf g k')"
  by (simp add: edgesOf_def update_conv')

lemma edgesOf_append_new:
  "map_of g k = None \<Longrightarrow> edgesOf (g @ [(k, v)]) k' = (if k' = k then v else edgesOf g k')"
  by (auto simp: edgesOf_def map_add_def split: option.splits)

lemma edgesOf_pushReverse:
  "edgesOf (pushReverse memId g rel) k =
     (if k = targetId rel
      then edgesOf g k @ [\<lparr>rel_type = rel_type rel @ ''-reverse'', targetId = memId,
                           strength = strength rel\<rparr>]
      else edgesOf g k)"
proof (cases "map_of g (targetId rel)")
  case None
  then show ?thesis
    by (simp add: pushReverse_def Let_def edgesOf_append_new) (simp add: edgesOf_def)
next
  case (Some rels)
  then show ?thesis
    by (simp add: pushReverse_def Let_def edgesOf_update) (simp add: edgesOf_def)
qed

lemma edgesOf_foldl_pushReverse_mono:
  "x \<in> set (edgesOf g k) \<Longrightarrow> x \<in> set (edgesOf (foldl (pushReverse memId) g rels) k)"
proof (induction rels arbitrary: g)
  case Nil
  then show ?case by simp
next
  case (Cons r rels)
  have "x \<in> set (edgesOf (pushReverse memId g r) k)"
    using Cons.prems by (auto simp: edgesOf_pushReverse)
  then show ?case using Cons.IH by simp
qed

lemma reverse_in_foldl_pushReverse:
  "rel \<in> set rels \<Longrightarrow>
   \<lparr>rel_type = rel_type rel @ ''-reverse'', targetId = memId, strength = strength rel\<rparr>
     \<in> set (edgesOf (foldl (pushReverse memId) g rels) (targetId rel))"
proof (induction rels arbitrary: g)
  case Nil
  then show ?case by simp
next
  case (Cons r rels)
  show ?case
  proof (cases "rel = r")
    case True
    have "\<lparr>rel_type = rel_type rel @ ''-reverse'', targetId = memId, strength = strength rel\<rparr>
            \<in> set (edgesOf (pushReverse memId g r) (targetId rel))"
      using True by (simp add: edgesOf_pushReverse)
    then show ?thesis
      by (simp add: edgesOf_foldl_pushReverse_mono)
  next
    case False
    with Cons.prems have "rel \<in> set rels" by simp
    then show ?thesis using Cons.IH by simp
  qed
qed

lemma reverse_after_discovery:
  assumes "rel \<in> set (discoveredRelationships s memId e)"
  shows "\<lparr>rel_type = rel_type rel @ ''-reverse'', targetId = memId, strength = strength rel\<rparr>
           \<in> set (edgesOf (relationshipGraph (discoverRelationships s memId e)) (targetId rel))"
  using reverse_in_foldl_pushReverse[OF assms]
  by (simp add: discoverRelationships_def Let_def)

lemma relationshipGraph_updateClusterCentroid [simp]:
  "relationshipGraph (updateClusterCentroid s c now) = relationshipGraph s"
  by (simp add: updateClusterCentroid_def Let_def split: option.splits list.splits)

lemma relationshipGraph_updateConceptClusters [simp]:
  "relationshipGraph (updateConceptClusters s i e c now) = relationshipGraph s"
  by (simp add: updateConceptClusters_def Let_def split: option.splits)

lemma in_removeFirst:
  "x \<in> set xs \<Longrightarrow> \<not> P x \<Longrightarrow> x \<in> set (removeFirst P xs)"
  by (induction xs) auto

lemma map_of_map_values:
  "map_of (map (\<lambda>(k, v). (k, f v)) al) k = map_option f (map_of al k)"
  by (induction al) auto

lemma edgesOf_removeMemory:
  assumes "k \<noteq> r"
  shows "edgesOf (relationshipGraph (removeMemory s r)) k =
           removeFirst (\<lambda>rel. targetId rel = r) (edgesOf (relationshipGraph s) k)"
  using assms
  by (simp add: removeMemory_def edgesOf_def map_of_map_values delete_conv' split: option.splits)

lemma edge_survives_removeMemory:
  assumes "x \<in> set (edgesOf (relationshipGraph s) k)" and "k \<noteq> r" and "targetId x \<noteq> r"
  shows "x \<in> set (edgesOf (relationshipGraph (removeMemory s r)) k)"
  using assms by (simp add: edgesOf_removeMemory in_removeFirst)

lemma edge_survives_fold_removeMemory:
  assumes "x \<in> set (edgesOf (relationshipGraph s) k)"
    and "k \<notin> fst ` set R" and "targetId x \<notin> fst ` set R"
  shows "x \<in> set (edgesOf (relationshipGraph (foldl (\<lambda>st p. removeMemory st (fst p)) s R)) k)"
  using assms
proof (induction R arbitrary: s)
  case Nil
  then show ?case by simp
next
  case (Cons r R)
  have "x \<in> set (edgesOf (relationshipGraph (removeMemory s (fst r))) k)"
    using Cons.prems by (intro edge_survives_removeMemory) auto
  then show ?case using Cons.IH Cons.prems by simp
qed

lemma key_of_filtered:
  "y \<in> fst ` set (filter (\<lambda>p. fst p \<notin> A) xs) \<Longrightarrow> y \<notin> A"
  by auto

lemma maintain_keeps_edge:
  assumes x: "x \<in> set (edgesOf (relationshipGraph s) k)"
    and k: "k \<in> fst ` set (memoryStore (maintainMemoryLimits s))"
    and t: "targetId x \<in> fst ` set (memoryStore (maintainMemoryLimits s))"
  shows "x \<in> set (edgesOf (relationshipGraph (maintainMemoryLimits s)) k)"
proof (cases "maxMemories s < int (length (memoryStore s))")
  case False
  then show ?thesis using x by (simp add: maintainMemoryLimits_def)
next
  case True
  have kk: "k \<notin> fst ` set (toRemove s)"
    using k unfolding maintain_store[OF True] by (rule key_of_filtered)
  have tt: "targetId x \<notin> fst ` set (toRemove s)"
    using t unfolding maintain_store[OF True] by (rule key_of_filtered)
  have "maintainMemoryLimits s = foldl (\<lambda>st p. removeMemory st (fst p)) s (toRemove s)"
    using True by (simp add: maintainMemoryLimits_def case_prod_unfold)
  then show ?thesis
    using edge_survives_fold_removeMemory[OF x kk tt] by simp
qed

lemma thirdStored_eval:
  "(let s = thirdStored in
      map fst (memoryStore s) = [''memory-2'', ''memory-3'']
      \<and> relationshipGraph s =
          [(''memory-2'',
            [\<lparr>rel_type = ''temporal-related'', targetId = ''memory-1'', strength = 0.5\<rparr>,
             \<lparr>rel_type = ''domain-related-reverse'', targetId = ''memory-3'', strength = 0.7\<rparr>,
             \<lparr>rel_type = ''temporal-related-reverse'', targetId = ''memory-3'', strength = 0.5\<rparr>]),
           (''memory-3'',
            [\<lparr>rel_type = ''domain-related'', targetId = ''memory-2'', strength = 0.7\<rparr>,
             \<lparr>rel_type = ''temporal-related'', targetId = ''memory-1'', strength = 0.5\<rparr>,
             \<lparr>rel_type = ''temporal-related'', targetId = ''memory-2'', strength = 0.5\<rparr>])]
      \<and> embeddingBuckets s = [(''default'', [''memory-1'', ''memory-2'', ''memory-3''])])"
  by code_simp

lemma thirdStored_discovered:
  "discoveredRelationships (prepareIndices twoStored ''memory-3'' thirdEntry) ''memory-3'' thirdEntry =
     [\<lparr>rel_type = ''domain-related'', targetId = ''memory-1'', strength = 0.7\<rparr>,
      \<lparr>rel_type = ''domain-related'', targetId = ''memory-2'', strength = 0.7\<rparr>,
      \<lparr>rel_type = ''temporal-related'', targetId = ''memory-1'', strength = 0.5\<rparr>,
      \<lparr>rel_type = ''temporal-related'', targetId = ''memory-2'', strength = 0.5\<rparr>]"
  by code_simp

lemma storeMemory_Inr:
  "createMemoryEntry hostname memId r = Inr e \<Longrightarrow>
   fst (storeMemory hostname s memId newClusterId now r) = storeEntry s memId newClusterId now e"
  by (simp add: storeMemory_def Let_def)

lemma thirdEntry_built:
  "createMemoryEntry exampleHostname ''memory-3'' (bareResult 3000) = Inr thirdEntry"
  by (simp add: thirdEntry_def createMemoryEntry_def bareResult_def)

lemma thirdStored_storeEntry:
  "thirdStored = storeEntry twoStored ''memory-3'' ''cluster-3'' 0 thirdEntry"
  unfolding thirdStored_def by (rule storeMemory_Inr[OF thirdEntry_built])

lemma removeMemory_keeps_centroids:
  "map (\<lambda>(k, c). centroid c) (conceptClusters (removeMemory s memId)) =
   map (\<lambda>(k, c). centroid c) (conceptClusters s)"
  by (simp add: removeMemory_def case_prod_unfold)

lemma oneStored_discovered:
  "\<lparr>rel_type = ''domain-related'', targetId = ''memory-1'', strength = 0.7\<rparr>
     \<in> set (discoveredRelationships (prepareIndices oneStored ''memory-2'' secondEntry)
              ''memory-2'' secondEntry)"
  by code_simp

lemma oneStored_live:
  "''memory-2'' \<in> fst ` set (memoryStore (storeEntry oneStored ''memory-2'' ''cluster-2'' 0 secondEntry))
   \<and> ''memory-1'' \<in> fst ` set (memoryStore (storeEntry oneStored ''memory-2'' ''cluster-2'' 0 secondEntry))"
  by code_simp

text \<open>
  Claim C6, as the code has it. Every relationship from the new record to a record B
  that \<^verbatim>\<open>discoverRelationships\<close> finds has its reverse, of the same kind with the suffix
  \<^verbatim>\<open>-reverse\<close> and of the same strength, in the list of B as soon as
  \<^verbatim>\<open>discoverRelationships\<close> returns; and the reverse is still there when the insertion
  returns, provided that the capacity step of this insertion evicted neither B nor the
  new record.
\<close>

theorem reciprocal_edges:
  "rel \<in> set (discoveredRelationships (prepareIndices s memId e) memId e) \<longrightarrow>
     \<lparr>rel_type = rel_type rel @ ''-reverse'', targetId = memId, strength = strength rel\<rparr>
       \<in> set (edgesOf (relationshipGraph
                 (discoverRelationships (prepareIndices s memId e) memId e)) (targetId rel))
     \<and> (memId \<in> fst ` set (memoryStore (storeEntry s memId newClusterId now e))
         \<and> targetId rel \<in> fst ` set (memoryStore (storeEntry s memId newClusterId now e)) \<longrightarrow>
         \<lparr>rel_type = rel_type rel @ ''-reverse'', targetId = memId, strength = strength rel\<rparr>
           \<in> set (edgesOf (relationshipGraph (storeEntry s memId newClusterId now e))
                   (targetId rel)))"
proof (intro impI conjI)
  assume rel: "rel \<in> set (discoveredRelationships (prepareIndices s memId e) memId e)"
  let ?rev = "\<lparr>rel_type = rel_type rel @ ''-reverse'', targetId = memId, strength = strength rel\<rparr>"
  let ?s6 = "discoverRelationships (prepareIndices s memId e) memId e"
  show 1: "?rev \<in> set (edgesOf (relationshipGraph ?s6) (targetId rel))"
    using rel by (rule reverse_after_discovery)
  assume live: "memId \<in> fst ` set (memoryStore (storeEntry s memId newClusterId now e))
         \<and> targetId rel \<in> fst ` set (memoryStore (storeEntry s memId newClusterId now e))"
  have 2: "?rev \<in> set (edgesOf (relationshipGraph (indexEntry s memId newClusterId now e))
                          (targetId rel))"
    using 1 by (simp add: indexEntry_def Let_def)
  show "?rev \<in> set (edgesOf (relationshipGraph (storeEntry s memId newClusterId now e))
                          (targetId rel))"
    unfolding storeEntry_def
    using live maintain_keeps_edge[OF 2, unfolded relationship.simps] 
    by (simp add: storeEntry_def)
qed

theorem reciprocal_edges_witness:
  "\<lparr>rel_type = ''domain-related'', targetId = ''memory-1'', strength = 0.7\<rparr>
     \<in> set (discoveredRelationships (prepareIndices oneStored ''memory-2'' secondEntry)
              ''memory-2'' secondEntry)
   \<and> \<lparr>rel_type = ''domain-related-reverse'', targetId = ''memory-2'', strength = 0.7\<rparr>
       \<in> set (edgesOf (relationshipGraph
                 (storeEntry oneStored ''memory-2'' ''cluster-2'' 0 secondEntry)) ''memory-1'')"
  using reciprocal_edges[of "\<lparr>rel_type = ''domain-related'', targetId = ''memory-1'', strength = 0.7\<rparr>"
      oneStored "''memory-2''" secondEntry "''cluster-2''" 0]
    oneStored_discovered oneStored_live
  by simp

text \<open>
  Claim C6, as the specification states it, fails. The store of capacity 2 holds two
  records of the same address and day; the third insertion finds a relationship to the
  first record and then evicts it, so that the first record has no list of
  relationships when the insertion returns.
\<close>

theorem reciprocal_edges_counterexample:
  "\<lparr>rel_type = ''domain-related'', targetId = ''memory-1'', strength = 0.7\<rparr>
     \<in> set (discoveredRelationships (prepareIndices twoStored ''memory-3'' thirdEntry)
              ''memory-3'' thirdEntry)
   \<and> fst (storeMemory exampleHostname twoStored ''memory-3'' ''cluster-3'' 0 (bareResult 3000))
       = storeEntry twoStored ''memory-3'' ''cluster-3'' 0 thirdEntry
   \<and> edgesOf (relationshipGraph (storeEntry twoStored ''memory-3'' ''cluster-3'' 0 thirdEntry))
        ''memory-1'' = []"
  using thirdStored_eval thirdStored_discovered thirdStored_storeEntry
  by (simp add: Let_def edgesOf_def thirdStored_def[symmetric])

text \<open>
  Claim C2 fails on the code. After the third insertion above has evicted the first
  record through \<^verbatim>\<open>removeMemory\<close>, the first record is no longer in the memory store,
  but the second and the third record each keep a relationship that points to it:
  both had two relationships to it, and \<^verbatim>\<open>removeMemory\<close> removes only the first match
  of every list. The first record also stays in its embedding bucket, which
  \<^verbatim>\<open>removeMemory\<close> does not touch, and \<^verbatim>\<open>removeMemory\<close> changes the centroid of no
  cluster.
\<close>

theorem removeMemory_leaves_references:
  "''memory-1'' \<notin> set (map fst (memoryStore thirdStored))
   \<and> \<lparr>rel_type = ''temporal-related'', targetId = ''memory-1'', strength = 0.5\<rparr>
       \<in> set (edgesOf (relationshipGraph thirdStored) ''memory-2'')
   \<and> \<lparr>rel_type = ''temporal-related'', targetId = ''memory-1'', strength = 0.5\<rparr>
       \<in> set (edgesOf (relationshipGraph thirdStored) ''memory-3'')
   \<and> ''memory-1'' \<in> set (idsOf (embeddingBuckets thirdStored) ''default'')
   \<and> map (\<lambda>(k, c). centroid c) (conceptClusters (removeMemory s memId)) =
       map (\<lambda>(k, c). centroid c) (conceptClusters s)"
  using thirdStored_eval removeMemory_keeps_centroids[of s memId]
  by (simp add: Let_def edgesOf_def idsOf_def)

section \<open>Fan-out of an insertion\<close>
















lemma embeddingIndex_updateClusterCentroid [simp]:
  "embeddingIndex (updateClusterCentroid s c now) = embeddingIndex s"
  by (simp add: updateClusterCentroid_def Let_def split: option.splits list.splits)

lemma embeddingIndex_updateConceptClusters [simp]:
  "embeddingIndex (updateConceptClusters s i e c now) = embeddingIndex s"
  by (simp add: updateConceptClusters_def Let_def split: option.splits)




lemma embeddingIndex_removeMemory [simp]:
  "embeddingIndex (removeMemory s k) = AList.delete k (embeddingIndex s)"
  by (simp add: removeMemory_def)













section \<open>Cluster assignment\<close>

lemma findOrCreate_first:
  assumes "\<forall>p\<in>set pre. \<not> jgt (calculateCosineSimilarity (Some emb) (Some (centroid (snd p)))) 0.85"
    and "jgt (calculateCosineSimilarity (Some emb) (Some (centroid c))) 0.85"
  shows "findOrCreateConceptCluster (pre @ (cid, c) # post) emb new = cid"
  using assms
proof (induction pre)
  case Nil
  then show ?case by simp
next
  case (Cons p pre)
  obtain k c' where p: "p = (k, c')" by (cases p)
  show ?case using Cons by (simp add: p)
qed

lemma findOrCreate_none:
  assumes "\<forall>p\<in>set cs. \<not> jgt (calculateCosineSimilarity (Some emb) (Some (centroid (snd p)))) 0.85"
  shows "findOrCreateConceptCluster cs emb new = new"
  using assms
proof (induction cs)
  case Nil
  then show ?case by simp
next
  case (Cons p cs)
  obtain k c' where p: "p = (k, c')" by (cases p)
  show ?case using Cons by (simp add: p)
qed

lemma map_entry_middle:
  "k \<notin> fst ` set pre \<Longrightarrow>
   AList.map_entry k f (pre @ (k, v) # post) = pre @ (k, f v) # post"
  by (induction pre) auto

lemma map_of_middle:
  "k \<notin> fst ` set pre \<Longrightarrow> map_of (pre @ (k, v) # post) k = Some v"
  by (induction pre) auto

lemma map_entry_absent:
  "k \<notin> fst ` set al \<Longrightarrow> AList.map_entry k f al = al"
  by (induction al) auto

lemma accumulate_zero: "accumulate (replicate (length v) (Num 0)) v = v"
proof (induction v)
  case Nil
  then show ?case by simp
next
  case (Cons x v)
  then show ?case by (cases x) simp_all
qed

lemma jdiv_one: "jdiv x (Num 1) = x"
  by (cases x) simp_all

lemma averageEmbeddings_single: "averageEmbeddings [v] = v"
  by (simp add: averageEmbeddings_def accumulate_zero jdiv_one map_idI)

lemma accumulate_Num:
  "length acc = length v \<Longrightarrow>
   accumulate (map Num acc) (map Num v) = map Num (map2 (+) acc v)"
  by (induction acc v rule: list_induct2) simp_all

lemma foldl_accumulate_Num:
  "\<forall>v\<in>set vs. length v = length acc \<Longrightarrow>
   foldl accumulate (map Num acc) (map (map Num) vs) = map Num (foldl (map2 (+)) acc vs)"
proof (induction vs arbitrary: acc)
  case Nil
  then show ?case by simp
next
  case (Cons v vs)
  have a: "accumulate (map Num acc) (map Num v) = map Num (map2 (+) acc v)"
    using Cons.prems by (intro accumulate_Num) simp
  have b: "\<forall>w\<in>set vs. length w = length (map2 (+) acc v)"
    using Cons.prems by simp
  have "foldl accumulate (map Num acc) (map (map Num) (v # vs)) =
        foldl accumulate (accumulate (map Num acc) (map Num v)) (map (map Num) vs)"
    by (simp only: list.map foldl_Cons)
  also have "\<dots> = foldl accumulate (map Num (map2 (+) acc v)) (map (map Num) vs)"
    by (simp only: a)
  also have "\<dots> = map Num (foldl (map2 (+)) (map2 (+) acc v) vs)"
    by (rule Cons.IH[OF b])
  also have "\<dots> = map Num (foldl (map2 (+)) acc (v # vs))"
    by (simp only: foldl_Cons)
  finally show ?case .
qed

lemma foldl_map2_nth:
  "\<forall>v\<in>set vs. length v = length acc \<Longrightarrow> j < length acc \<Longrightarrow>
   foldl (map2 (+)) acc vs ! j = acc ! j + sum_list (map (\<lambda>v. v ! j) vs)"
proof (induction vs arbitrary: acc)
  case Nil
  then show ?case by simp
next
  case (Cons v vs)
  have l: "length (map2 (+) acc v) = length acc" using Cons.prems by simp
  have "foldl (map2 (+)) (map2 (+) acc v) vs ! j =
          map2 (+) acc v ! j + sum_list (map (\<lambda>v. v ! j) vs)"
    using Cons.prems l by (intro Cons.IH) simp_all
  then show ?case using Cons.prems by (simp add: add.assoc)
qed

lemma length_foldl_map2:
  "\<forall>v\<in>set vs. length v = length acc \<Longrightarrow> length (foldl (map2 (+)) acc vs) = length acc"
  by (induction vs arbitrary: acc) simp_all

lemma map_jdiv_Num:
  "n \<noteq> 0 \<Longrightarrow> map (\<lambda>v. jdiv v (Num n)) (map Num xs) = map Num (map (\<lambda>x. x / n) xs)"
  by (induction xs) simp_all

lemma averageEmbeddings_mean:
  assumes ne: "vs \<noteq> []" and len: "\<forall>v\<in>set vs. length v = length (hd vs)"
  shows "averageEmbeddings (map (map Num) vs) = map Num (spec_mean vs)"
proof -
  obtain v0 rest where vs: "vs = v0 # rest" using ne by (cases vs) auto
  let ?d = "length v0"
  let ?n = "real (length vs)"
  have len': "\<forall>v\<in>set vs. length v = length (replicate ?d (0::real))"
    using len vs by simp
  have n0: "?n \<noteq> 0" using ne by simp
  have rep: "replicate ?d (Num 0) = map Num (replicate ?d 0)" by simp
  have sums: "foldl accumulate (replicate ?d (Num 0)) (map (map Num) vs) =
          map Num (foldl (map2 (+)) (replicate ?d 0) vs)"
    unfolding rep by (rule foldl_accumulate_Num[OF len'])
  have lens: "length (foldl (map2 (+)) (replicate ?d 0) vs) = ?d"
    using length_foldl_map2[OF len'] by simp
  have "map (\<lambda>x. x / ?n) (foldl (map2 (+)) (replicate ?d 0) vs) = spec_mean vs"
  proof (rule nth_equalityI)
    show "length (map (\<lambda>x. x / ?n) (foldl (map2 (+)) (replicate ?d 0) vs)) = length (spec_mean vs)"
      using lens vs by (simp add: spec_mean_def)
  next
    fix j assume "j < length (map (\<lambda>x. x / ?n) (foldl (map2 (+)) (replicate ?d 0) vs))"
    then have j: "j < ?d" using lens by simp
    then have "foldl (map2 (+)) (replicate ?d 0) vs ! j = sum_list (map (\<lambda>v. v ! j) vs)"
      using foldl_map2_nth[OF len', of j] by simp
    then show "map (\<lambda>x. x / ?n) (foldl (map2 (+)) (replicate ?d 0) vs) ! j = spec_mean vs ! j"
      using j lens vs by (simp add: spec_mean_def)
  qed
  then have "map Num (spec_mean vs) =
      map (\<lambda>v. jdiv v (Num ?n)) (map Num (foldl (map2 (+)) (replicate ?d 0) vs))"
    by (simp only: map_jdiv_Num[OF n0])
  also have "\<dots> = map (\<lambda>v. jdiv v (Num ?n))
      (foldl accumulate (replicate ?d (Num 0)) (map (map Num) vs))"
    by (simp only: sums)
  also have "\<dots> = averageEmbeddings (map (map Num) vs)"
    unfolding vs by (simp add: averageEmbeddings_def)
  finally show ?thesis by simp
qed

lemma memberEmbeddings_clusters [simp]:
  "memberEmbeddings (s\<lparr>conceptClusters := cs\<rparr>) ids = memberEmbeddings s ids"
  by (simp add: memberEmbeddings_def)

lemma memberEmbeddings_member:
  assumes "i \<in> set ids" and "map_of (embeddingIndex s) i = Some t" and "unified t = Some emb"
  shows "emb \<in> set (memberEmbeddings s ids)"
  using assms by (auto simp: memberEmbeddings_def intro!: bexI[of _ i])

lemma memberEmbeddings_single:
  assumes "map_of (embeddingIndex s) i = Some t" and "unified t = Some emb"
  shows "memberEmbeddings s [i] = [emb]"
  using assms by (simp add: memberEmbeddings_def)

lemma setAdd_nonempty: "setAdd x xs \<noteq> []"
  by (auto simp: setAdd_def)

lemma updateClusterCentroid_middle:
  assumes k: "cid \<notin> fst ` set pre"
    and m: "members c \<noteq> []"
    and e: "memberEmbeddings s (members c) \<noteq> []"
  shows "conceptClusters
           (updateClusterCentroid (s\<lparr>conceptClusters := pre @ (cid, c) # post\<rparr>) cid now) =
         pre @ (cid, c\<lparr>centroid := averageEmbeddings (memberEmbeddings s (members c)),
                        lastUpdated := now\<rparr>) # post"
proof -
  let ?s' = "s\<lparr>conceptClusters := pre @ (cid, c) # post\<rparr>"
  have "conceptClusters ?s' = pre @ (cid, c) # post" by simp
  then have look: "map_of (conceptClusters ?s') cid = Some c"
    using map_of_middle[OF k, of c post] by (simp only:)
  have me: "memberEmbeddings ?s' (members c) = memberEmbeddings s (members c)"
    by simp
  have "updateClusterCentroid ?s' cid now =
        ?s'\<lparr>conceptClusters :=
              AList.map_entry cid
                (\<lambda>x. x\<lparr>centroid := averageEmbeddings (memberEmbeddings s (members c)),
                       lastUpdated := now\<rparr>)
                (pre @ (cid, c) # post)\<rparr>"
    unfolding updateClusterCentroid_def look using m e
    by (simp add: Let_def)
  then show ?thesis
    by (simp add: map_entry_middle[OF k])
qed

lemma updateConceptClusters_join:
  assumes u: "unified (embeddingsTensor e) = Some emb"
    and idx: "map_of (embeddingIndex s) memId = Some (embeddingsTensor e)"
    and d: "distinct (map fst (conceptClusters s))"
    and cs: "conceptClusters s = pre @ (cid, c) # post"
    and below: "\<forall>p\<in>set pre.
        \<not> jgt (calculateCosineSimilarity (Some emb) (Some (centroid (snd p)))) 0.85"
    and above: "jgt (calculateCosineSimilarity (Some emb) (Some (centroid c))) 0.85"
  shows "conceptClusters (updateConceptClusters s memId e newClusterId now) =
     pre @ (cid, c\<lparr>centroid := averageEmbeddings (memberEmbeddings s (setAdd memId (members c))),
                    members := setAdd memId (members c), lastUpdated := now\<rparr>) # post"
proof -
  let ?c2 = "c\<lparr>members := setAdd memId (members c)\<rparr>"
  have k: "cid \<notin> fst ` set pre" using d cs by auto
  have f: "findOrCreateConceptCluster (conceptClusters s) emb newClusterId = cid"
    unfolding cs by (rule findOrCreate_first[OF below above])
  have look: "map_of (conceptClusters s) cid = Some c"
    unfolding cs by (rule map_of_middle[OF k])
  have "emb \<in> set (memberEmbeddings s (members ?c2))"
    by (rule memberEmbeddings_member[OF _ idx u]) (simp add: set_setAdd)
  then have ne: "memberEmbeddings s (members ?c2) \<noteq> []" by auto
  have m: "members ?c2 \<noteq> []" by (simp add: setAdd_nonempty)
  have "updateConceptClusters s memId e newClusterId now =
        updateClusterCentroid (s\<lparr>conceptClusters := pre @ (cid, ?c2) # post\<rparr>) cid now"
    using u f look by (simp add: updateConceptClusters_def Let_def cs map_entry_middle[OF k])
  then show ?thesis
    using updateClusterCentroid_middle[OF k m ne, of post now] by simp
qed

lemma updateConceptClusters_new:
  assumes u: "unified (embeddingsTensor e) = Some emb"
    and idx: "map_of (embeddingIndex s) memId = Some (embeddingsTensor e)"
    and below: "\<forall>p\<in>set (conceptClusters s).
        \<not> jgt (calculateCosineSimilarity (Some emb) (Some (centroid (snd p)))) 0.85"
    and fresh: "newClusterId \<notin> fst ` set (conceptClusters s)"
  shows "conceptClusters (updateConceptClusters s memId e newClusterId now) =
     conceptClusters s @
       [(newClusterId,
         \<lparr>cluster_id = newClusterId, centroid = emb, members = [memId],
          concept = inferConceptFromFeatures (semanticFeatures e), lastUpdated = now\<rparr>)]"
proof -
  let ?nc = "\<lparr>cluster_id = newClusterId, centroid = emb, members = [memId],
          concept = inferConceptFromFeatures (semanticFeatures e), lastUpdated = now\<rparr>"
  have f: "findOrCreateConceptCluster (conceptClusters s) emb newClusterId = newClusterId"
    by (rule findOrCreate_none[OF below])
  have look: "map_of (conceptClusters s) newClusterId = None"
    using fresh by (simp add: map_of_eq_None_iff)
  have me: "memberEmbeddings s (members ?nc) = [emb]"
    using memberEmbeddings_single[OF idx u] by simp
  have "updateConceptClusters s memId e newClusterId now =
        updateClusterCentroid (s\<lparr>conceptClusters := conceptClusters s @ (newClusterId, ?nc) # []\<rparr>)
          newClusterId now"
    using u f look
    by (simp add: updateConceptClusters_def Let_def map_entry_middle[OF fresh] setAdd_def)
  then show ?thesis
    using updateClusterCentroid_middle[OF fresh, of ?nc s "[]" now] me
    by (simp add: averageEmbeddings_single)
qed

lemma closePrepared_facts:
  "unified (embeddingsTensor closeEntry) = Some [Num 12, Num 5]"
  "map_of (embeddingIndex closePrepared) ''memory-3'' = Some (embeddingsTensor closeEntry)"
  "distinct (map fst (conceptClusters closePrepared))"
  "conceptClusters closePrepared = [] @ (''cluster-1'', firstCluster) # []"
  "jgt (calculateCosineSimilarity (Some [Num 12, Num 5]) (Some (centroid firstCluster))) 0.85"
  by code_simp+

lemma closePrepared_members:
  "memberEmbeddings closePrepared [''memory-1'', ''memory-3''] =
     [[Num 1, Num 0], [Num 12, Num 5]]"
  by code_simp

lemma spec_mean_example: "spec_mean [[1, 0], [12, 5]] = [13 / 2, 5 / 2]"
  by code_simp

text \<open>
  Claim C4, as the code has it. Let the record have a unified embedding, held by the
  embedding index as \<^verbatim>\<open>indexEmbeddings\<close> leaves it. \<^verbatim>\<open>findOrCreateConceptCluster\<close> goes
  through the clusters in the order of their creation and stops at the first one whose
  centroid has a cosine similarity above 0.85 to the embedding: the record joins that
  cluster, whether or not a later cluster is closer. Its identifier is added to the
  members, and the centroid becomes the average of the embeddings that the embedding
  index holds for the members. When no cluster is above 0.85, a cluster with the new
  identifier is appended, with the record as its only member and the record's
  embedding as its centroid. On numeric embeddings of one length the average is the
  arithmetic mean.
\<close>

theorem cluster_assignment_first_match:
  "(unified (embeddingsTensor e) = Some emb
    \<and> map_of (embeddingIndex s) memId = Some (embeddingsTensor e)
    \<and> distinct (map fst (conceptClusters s)) \<longrightarrow>
      (conceptClusters s = pre @ (cid, c) # post
       \<and> (\<forall>p\<in>set pre.
             \<not> jgt (calculateCosineSimilarity (Some emb) (Some (centroid (snd p)))) 0.85)
       \<and> jgt (calculateCosineSimilarity (Some emb) (Some (centroid c))) 0.85 \<longrightarrow>
         conceptClusters (updateConceptClusters s memId e newClusterId now) =
           pre @ (cid, c\<lparr>centroid := averageEmbeddings
                                          (memberEmbeddings s (setAdd memId (members c))),
                          members := setAdd memId (members c), lastUpdated := now\<rparr>) # post)
      \<and> ((\<forall>p\<in>set (conceptClusters s).
             \<not> jgt (calculateCosineSimilarity (Some emb) (Some (centroid (snd p)))) 0.85)
          \<and> newClusterId \<notin> fst ` set (conceptClusters s) \<longrightarrow>
         conceptClusters (updateConceptClusters s memId e newClusterId now) =
           conceptClusters s @
             [(newClusterId,
               \<lparr>cluster_id = newClusterId, centroid = emb, members = [memId],
                concept = inferConceptFromFeatures (semanticFeatures e),
                lastUpdated = now\<rparr>)]))
   \<and> (vs \<noteq> [] \<and> (\<forall>v\<in>set vs. length v = length (hd vs)) \<longrightarrow>
        averageEmbeddings (map (map Num) vs) = map Num (spec_mean vs))"
  using updateConceptClusters_join[of e emb s memId pre cid c post newClusterId now]
    updateConceptClusters_new[of e emb s memId newClusterId now]
    averageEmbeddings_mean[of vs]
  by blast

theorem cluster_assignment_first_match_witness:
  "conceptClusters closePrepared = [(''cluster-1'', firstCluster)]
   \<and> jgt (calculateCosineSimilarity (Some [Num 12, Num 5]) (Some (centroid firstCluster))) 0.85
   \<and> conceptClusters (updateConceptClusters closePrepared ''memory-3'' closeEntry ''cluster-3'' 7) =
       [(''cluster-1'',
         firstCluster\<lparr>centroid := [Num (13 / 2), Num (5 / 2)],
                       members := [''memory-1'', ''memory-3''], lastUpdated := 7\<rparr>)]"
proof -
  have m: "setAdd ''memory-3'' (members firstCluster) = [''memory-1'', ''memory-3'']"
    by (simp add: setAdd_def firstCluster_def)
  have avg: "averageEmbeddings (map (map Num) [[1, 0], [12, 5]]) = map Num (spec_mean [[1, 0], [12, 5]])"
    using cluster_assignment_first_match[of closeEntry "[Num 12, Num 5]" closePrepared "''memory-3''"
        "[]" "''cluster-1''" firstCluster "[]" "''cluster-3''" 7 "[[1, 0], [12, 5]]"]
    by simp
  have "conceptClusters (updateConceptClusters closePrepared ''memory-3'' closeEntry ''cluster-3'' 7) =
       [] @ (''cluster-1'',
         firstCluster\<lparr>centroid := averageEmbeddings
                                   (memberEmbeddings closePrepared
                                      (setAdd ''memory-3'' (members firstCluster))),
                       members := setAdd ''memory-3'' (members firstCluster),
                       lastUpdated := 7\<rparr>) # []"
    using cluster_assignment_first_match[of closeEntry "[Num 12, Num 5]" closePrepared "''memory-3''"
        "[]" "''cluster-1''" firstCluster "[]" "''cluster-3''" 7 "[[1, 0], [12, 5]]"]
      closePrepared_facts
    by simp
  then show ?thesis
    using closePrepared_facts(4,5) avg
    by (simp add: closePrepared_members m spec_mean_example)
qed

text \<open>
  Claim C4, as the specification states it, fails. Two clusters have the centroids
  \<open>(1, 0)\<close> and \<open>(4, 3)\<close>; the embedding \<open>(12, 5)\<close> has the similarity 12/13 to the
  first and 63/65 to the second. Both are above 0.85 and the second is the maximum, yet
  the record joins the first cluster.
\<close>

theorem cluster_assignment_counterexample:
  "map (\<lambda>(k, c). (k, centroid c, members c)) (conceptClusters twoClusters) =
     [(''cluster-1'', [Num 1, Num 0], [''memory-1'']),
      (''cluster-2'', [Num 4, Num 3], [''memory-2''])]
   \<and> calculateCosineSimilarity (Some [Num 12, Num 5]) (Some [Num 1, Num 0]) = Num (12 / 13)
   \<and> calculateCosineSimilarity (Some [Num 12, Num 5]) (Some [Num 4, Num 3]) = Num (63 / 65)
   \<and> (85 / 100 :: real) < 12 / 13 \<and> (12 / 13 :: real) < 63 / 65
   \<and> map (\<lambda>(k, c). (k, centroid c, members c))
         (conceptClusters (storeEntry twoClusters ''memory-3'' ''cluster-3'' 0 closeEntry)) =
     [(''cluster-1'', [Num (13 / 2), Num (5 / 2)], [''memory-1'', ''memory-3'']),
      (''cluster-2'', [Num 4, Num 3], [''memory-2''])]"
  by code_simp

end
